theory Spec2Isabelle
  imports Main
begin

section \<open>JavaScript values\<close>

text \<open>
  The controller \<^verbatim>\<open>src/backend/src/controllers/github.controller.js\<close> moves JSON
  data between three parties: the request, the \<^verbatim>\<open>users\<close> table and the GitHub API.
  A value is modelled as the JavaScript value it is.  Numbers are only ever copied by
  the controller, never computed with, so their payload is an integer here.  An object
  is the list of its properties in insertion order; a property is read with
  \<open>map_of\<close>, and no key stands twice in an object the controller builds.  A string
  is a list of characters; the controller tells apart only the slash and the characters
  of \<^verbatim>\<open>github.com/\<close>.
\<close>

datatype jsval =
    JUndefined
  | JNull
  | JBool bool
  | JNum int
  | JStr string
  | JArr "jsval list"
  | JObj "(string \<times> jsval) list"

datatype js_error = TypeError

text \<open>Reading a property of \<^verbatim>\<open>undefined\<close> or \<^verbatim>\<open>null\<close> throws a TypeError.\<close>

fun nullish :: "jsval \<Rightarrow> bool" where
  "nullish JUndefined = True"
| "nullish JNull = True"
| "nullish v = False"

text \<open>
  \<open>member_of v k\<close> is \<^verbatim>\<open>v.k\<close> for a value that is not nullish.  The controller
  reads only the data properties \<^verbatim>\<open>id\<close>, \<^verbatim>\<open>name\<close>, \<^verbatim>\<open>full_name\<close>,
  \<^verbatim>\<open>html_url\<close>, \<^verbatim>\<open>description\<close>, \<^verbatim>\<open>default_branch\<close>, \<^verbatim>\<open>visibility\<close>,
  \<^verbatim>\<open>updated_at\<close> and \<^verbatim>\<open>repositoryUrl\<close>, none of which a string, number, boolean
  or array has.
\<close>

fun member_of :: "jsval \<Rightarrow> string \<Rightarrow> jsval" where
  "member_of (JObj kvs) k = (case map_of kvs k of Some v \<Rightarrow> v | None \<Rightarrow> JUndefined)"
| "member_of v k = JUndefined"

definition get_prop :: "jsval \<Rightarrow> string \<Rightarrow> js_error + jsval" where
  "get_prop v k = (if nullish v then Inl TypeError else Inr (member_of v k))"

text \<open>\<^verbatim>\<open>Object.keys\<close> of an object, and the elements of an array.\<close>

fun object_keys :: "jsval \<Rightarrow> string list" where
  "object_keys (JObj kvs) = map fst kvs"
| "object_keys v = []"

fun elements :: "jsval \<Rightarrow> jsval list" where
  "elements (JArr xs) = xs"
| "elements v = []"

text \<open>Truthiness of a value that is a string, \<^verbatim>\<open>null\<close> or \<^verbatim>\<open>undefined\<close> (\<open>None\<close>).\<close>

fun truthy :: "string option \<Rightarrow> bool" where
  "truthy None = False"
| "truthy (Some s) = (s \<noteq> [])"

text \<open>\<^verbatim>\<open>a || b\<close>\<close>

definition js_or :: "string option \<Rightarrow> string option \<Rightarrow> string option" where
  "js_or a b = (if truthy a then a else b)"

text \<open>A nullable column inside a template literal: \<^verbatim>\<open>`${null}`\<close> is \<^verbatim>\<open>"null"\<close>.\<close>

fun template :: "string option \<Rightarrow> string" where
  "template None = ''null''"
| "template (Some s) = s"

text \<open>\<^verbatim>\<open>Array.prototype.map\<close> with a callback that may throw: the first throw aborts.\<close>

fun map_throw :: "('a \<Rightarrow> js_error + 'b) \<Rightarrow> 'a list \<Rightarrow> js_error + 'b list" where
  "map_throw f [] = Inr []"
| "map_throw f (x # xs) =
     (case f x of
        Inl e \<Rightarrow> Inl e
      | Inr y \<Rightarrow> (case map_throw f xs of Inl e \<Rightarrow> Inl e | Inr ys \<Rightarrow> Inr (y # ys)))"

section \<open>The users table\<close>

record user_row =
  row_id :: string
  firebase_uid :: "string option"
  github_access_token :: "string option"
  github_username :: "string option"

type_synonym users_table = "user_row list"

datatype column = ColFirebaseUid | ColId

fun column_value :: "column \<Rightarrow> user_row \<Rightarrow> string option" where
  "column_value ColFirebaseUid r = firebase_uid r"
| "column_value ColId r = Some (row_id r)"

text \<open>
  The filter \<^verbatim>\<open>.eq(column, userId)\<close>.  The client sends the identity as the text
  \<^verbatim>\<open>`eq.${userId}`\<close>, so an identity that is \<^verbatim>\<open>undefined\<close> (\<open>None\<close>) is compared as
  the text \<^verbatim>\<open>undefined\<close>.  A SQL comparison with a NULL column is never true.
\<close>

fun filter_text :: "string option \<Rightarrow> string" where
  "filter_text None = ''undefined''"
| "filter_text (Some s) = s"

definition eq_filter :: "column \<Rightarrow> string option \<Rightarrow> user_row \<Rightarrow> bool" where
  "eq_filter c key r = (column_value c r = Some (filter_text key))"

datatype db_error = NotExactlyOneRow

text \<open>
  \<^verbatim>\<open>.single()\<close> of the database client: the row when the query result is exactly
  one row, otherwise no data and an error.  The client reports errors in the result
  and does not throw.
\<close>

definition single :: "'a list \<Rightarrow> 'a option \<times> db_error option" where
  "single rs = (case rs of [r] \<Rightarrow> (Some r, None) | _ \<Rightarrow> (None, Some NotExactlyOneRow))"

text \<open>\<^verbatim>\<open>supabase.from('users').select(...).eq(column, userId).single()\<close>\<close>

definition select_single ::
  "users_table \<Rightarrow> column \<Rightarrow> string option \<Rightarrow> user_row option \<times> db_error option" where
  "select_single db c key = single (filter (eq_filter c key) db)"

text \<open>\<^verbatim>\<open>supabase.from('users').update({ github_access_token: null }).eq(column, userId)\<close>\<close>

definition clear_token :: "users_table \<Rightarrow> column \<Rightarrow> string option \<Rightarrow> users_table" where
  "clear_token db c key =
     map (\<lambda>r. if eq_filter c key r then r\<lparr>github_access_token := None\<rparr> else r) db"

section \<open>The GitHub API and the effects of a handler\<close>

record http_request =
  url :: string
  params :: "(string \<times> string) list"
  authorization :: string
  accept :: string

text \<open>
  An axios call resolves with the response data on a 2xx status and rejects otherwise;
  the rejection carries the response status when there was a response, and a message.
\<close>

datatype axios_result = AxiosOk jsval | AxiosErr "nat option" string

text \<open>
  A \<^verbatim>\<open>fetch\<close> call rejects on a network failure and otherwise resolves with a response
  of any status; \<^verbatim>\<open>response.json()\<close> rejects when the body is not JSON (\<open>None\<close>).
\<close>

datatype fetch_result = FetchThrows | FetchResponse nat "jsval option"

definition ok :: "nat \<Rightarrow> bool" where
  "ok st = (200 \<le> st \<and> st \<le> 299)"

record env =
  axios :: "http_request \<Rightarrow> axios_result"
  fetch :: "http_request \<Rightarrow> fetch_result"
  error_message :: "js_error \<Rightarrow> string"

datatype effect =
    DbSelectSingle column "string option"
  | DbSelectSample
  | DbClearToken column "string option"
  | HttpGet http_request

fun http_calls :: "effect list \<Rightarrow> http_request list" where
  "http_calls [] = []"
| "http_calls (HttpGet rq # es) = rq # http_calls es"
| "http_calls (e # es) = http_calls es"

fun db_lookups :: "effect list \<Rightarrow> (column \<times> string option) list" where
  "db_lookups [] = []"
| "db_lookups (DbSelectSingle c k # es) = (c, k) # db_lookups es"
| "db_lookups (e # es) = db_lookups es"

fun db_writes :: "effect list \<Rightarrow> (column \<times> string option) list" where
  "db_writes [] = []"
| "db_writes (DbClearToken c k # es) = (c, k) # db_writes es"
| "db_writes (e # es) = db_writes es"

section \<open>Requests and responses\<close>

record user_claims =
  uid :: "string option"
  claim_firebase_uid :: "string option"
  claim_id :: "string option"

record request =
  user :: "user_claims option"
  param_owner :: string
  param_repo :: string
  body :: jsval

text \<open>\<^verbatim>\<open>res.status(s).json(b)\<close> is the pair \<open>(s, b)\<close>.\<close>

type_synonym response = "nat \<times> jsval"

text \<open>What a handler leaves behind: the response, the table, the effects in order.\<close>

type_synonym outcome = "response \<times> users_table \<times> effect list"

definition response_of :: "outcome \<Rightarrow> response" where
  "response_of out = fst out"

definition table_of :: "outcome \<Rightarrow> users_table" where
  "table_of out = fst (snd out)"

definition effects_of :: "outcome \<Rightarrow> effect list" where
  "effects_of out = snd (snd out)"

definition GitHubAuthRequired :: string where
  "GitHubAuthRequired = ''GitHub authentication required''"

definition InvalidRepositoryUrl :: string where
  "InvalidRepositoryUrl = ''Invalid GitHub repository URL''"

definition RepositoryNotAccessible :: string where
  "RepositoryNotAccessible = ''Repository not found or no access''"

definition error_body :: "string \<Rightarrow> jsval" where
  "error_body e = JObj [(''error'', JStr e)]"

definition error_message_body :: "string \<Rightarrow> string \<Rightarrow> jsval" where
  "error_message_body e m = JObj [(''error'', JStr e), (''message'', JStr m)]"

section \<open>Credential lookup of the two listers\<close>

text \<open>\<^verbatim>\<open>row?.github_access_token\<close> as a condition.\<close>

fun has_token :: "user_row option \<Rightarrow> bool" where
  "has_token None = False"
| "has_token (Some r) = truthy (github_access_token r)"

text \<open>
  Lines 18 to 48 of \<^verbatim>\<open>getRepositories\<close> and, word for word, lines 143 to 173 of
  \<^verbatim>\<open>getRepositoryBranches\<close>: the value of \<^verbatim>\<open>user\<close> afterwards (\<open>None\<close> when
  \<^verbatim>\<open>tokenFound\<close> is false) and the queries issued.
\<close>

definition find_user :: "users_table \<Rightarrow> string option \<Rightarrow> user_row option \<times> effect list" where
  "find_user db userId =
     (let (userByFirebaseUid, firebaseUidError) = select_single db ColFirebaseUid userId in
      if has_token userByFirebaseUid
      then (userByFirebaseUid, [DbSelectSingle ColFirebaseUid userId])
      else
        (let (userById, idError) = select_single db ColId userId in
         if has_token userById
         then (userById, [DbSelectSingle ColFirebaseUid userId, DbSelectSingle ColId userId])
         else (None, [DbSelectSingle ColFirebaseUid userId, DbSelectSingle ColId userId])))"

definition no_token_response :: response where
  "no_token_response =
     (401, error_message_body GitHubAuthRequired
        ''No GitHub access token found for your account. Please sign in with GitHub again.'')"

section \<open>getRepositories\<close>

definition repos_request :: "user_row \<Rightarrow> http_request" where
  "repos_request usr =
     \<lparr>url = ''https://api.github.com/user/repos'',
      params = [(''sort'', ''updated''), (''per_page'', ''100'')],
      authorization = ''token '' @ template (github_access_token usr),
      accept = ''application/vnd.github.v3+json''\<rparr>"

definition formatRepo :: "jsval \<Rightarrow> js_error + jsval" where
  "formatRepo repo =
     (if nullish repo then Inl TypeError
      else Inr (JObj
        [(''id'', member_of repo ''id''),
         (''name'', member_of repo ''name''),
         (''full_name'', member_of repo ''full_name''),
         (''html_url'', member_of repo ''html_url''),
         (''description'', member_of repo ''description''),
         (''default_branch'', member_of repo ''default_branch''),
         (''visibility'', member_of repo ''visibility''),
         (''updated_at'', member_of repo ''updated_at'')]))"

text \<open>\<^verbatim>\<open>error.response?.status || 500\<close>\<close>

fun status_or_500 :: "nat option \<Rightarrow> nat" where
  "status_or_500 None = 500"
| "status_or_500 (Some st) = (if st = 0 then 500 else st)"

definition getRepositories :: "env \<Rightarrow> users_table \<Rightarrow> request \<Rightarrow> outcome" where
  "getRepositories en db req =
     (case user req of
        None \<Rightarrow> ((500, error_body ''Failed to fetch repositories''), db, [])
      | Some u \<Rightarrow>
          (let userId = js_or (js_or (uid u) (claim_firebase_uid u)) (claim_id u);
               (found, lookups) = find_user db userId
           in case found of
                None \<Rightarrow> (no_token_response, db, lookups @ [DbSelectSample])
              | Some usr \<Rightarrow>
                  (let rq = repos_request usr in
                   case axios en rq of
                     AxiosErr st msg \<Rightarrow>
                       (if st = Some 401
                        then ((401, error_message_body GitHubAuthRequired
                                 ''Your GitHub token has expired or is invalid. Please reconnect your GitHub account.''),
                              clear_token db ColFirebaseUid userId,
                              lookups @ [HttpGet rq, DbClearToken ColFirebaseUid userId])
                        else ((status_or_500 st,
                               error_message_body ''Failed to fetch repositories from GitHub'' msg),
                              db, lookups @ [HttpGet rq]))
                   | AxiosOk repositories \<Rightarrow>
                       (if nullish repositories
                        then ((500, error_message_body ''Failed to fetch repositories from GitHub''
                                      (error_message en TypeError)),
                              db, lookups @ [HttpGet rq])
                        else
                          (case repositories of
                             JArr repos \<Rightarrow>
                               (case map_throw formatRepo repos of
                                  Inl e \<Rightarrow>
                                    ((500, error_body ''Failed to fetch repositories''),
                                     db, lookups @ [HttpGet rq])
                                | Inr formattedRepos \<Rightarrow>
                                    ((200, JObj [(''repositories'', JArr formattedRepos)]),
                                     db, lookups @ [HttpGet rq]))
                           | _ \<Rightarrow>
                               ((500, error_body ''Failed to fetch repositories''),
                                db, lookups @ [HttpGet rq]))))))"

section \<open>getRepositoryBranches\<close>

definition branches_request :: "string \<Rightarrow> string \<Rightarrow> user_row \<Rightarrow> http_request" where
  "branches_request owner repo usr =
     \<lparr>url = ''https://api.github.com/repos/'' @ owner @ ''/'' @ repo @ ''/branches'',
      params = [],
      authorization = ''token '' @ template (github_access_token usr),
      accept = ''application/vnd.github.v3+json''\<rparr>"

definition getRepositoryBranches :: "env \<Rightarrow> users_table \<Rightarrow> request \<Rightarrow> outcome" where
  "getRepositoryBranches en db req =
     (case user req of
        None \<Rightarrow> ((500, error_body ''Failed to fetch repository branches''), db, [])
      | Some u \<Rightarrow>
          (let userId = js_or (js_or (uid u) (claim_firebase_uid u)) (claim_id u);
               owner = param_owner req;
               repo = param_repo req;
               (found, lookups) = find_user db userId
           in case found of
                None \<Rightarrow> (no_token_response, db, lookups @ [DbSelectSample])
              | Some usr \<Rightarrow>
                  (let rq = branches_request owner repo usr in
                   case fetch en rq of
                     FetchThrows \<Rightarrow>
                       ((500, error_body ''Failed to fetch repository branches''),
                        db, lookups @ [HttpGet rq])
                   | FetchResponse st parsed \<Rightarrow>
                       (case parsed of
                          None \<Rightarrow>
                            ((500, error_body ''Failed to fetch repository branches''),
                             db, lookups @ [HttpGet rq])
                        | Some json \<Rightarrow>
                            (if \<not> ok st
                             then ((st, error_body ''Failed to fetch branches from GitHub''),
                                   db, lookups @ [HttpGet rq])
                             else ((200, JObj [(''branches'', json)]),
                                   db, lookups @ [HttpGet rq]))))))"

section \<open>validateRepository\<close>

text \<open>
  The pattern \<^verbatim>\<open>/github\.com\/([^\/]+)\/([^\/]+)/\<close>.  At one start position the literal
  must be a prefix; each group is greedy, so it takes the whole run of characters other
  than a slash, and a shorter run could not be followed by the slash the pattern needs
  next.  \<^verbatim>\<open>String.prototype.match\<close> tries the start positions from left to right.
\<close>

definition not_slash :: "char \<Rightarrow> bool" where
  "not_slash c = (c \<noteq> CHR ''/'')"

definition match_here :: "string \<Rightarrow> (string \<times> string) option" where
  "match_here s =
     (if take 11 s = ''github.com/''
      then
        (let rest = drop 11 s;
             owner = takeWhile not_slash rest;
             after_owner = dropWhile not_slash rest
         in if owner = [] \<or> after_owner = [] then None
            else
              (let repo = takeWhile not_slash (tl after_owner)
               in if repo = [] then None else Some (owner, repo)))
      else None)"

fun urlPattern_match :: "string \<Rightarrow> (string \<times> string) option" where
  "urlPattern_match [] = None"
| "urlPattern_match (c # cs) =
     (case match_here (c # cs) of
        Some m \<Rightarrow> Some m
      | None \<Rightarrow> urlPattern_match cs)"

text \<open>
  What it means for the pattern to match somewhere in a string, in the words of the
  pattern: the literal, a non-empty run without a slash, a slash, a non-empty run
  without a slash.
\<close>

definition pattern_occurs :: "string \<Rightarrow> bool" where
  "pattern_occurs s =
     (\<exists>before owner repo after.
        s = before @ ''github.com/'' @ owner @ ''/'' @ repo @ after \<and>
        owner \<noteq> [] \<and> CHR ''/'' \<notin> set owner \<and> repo \<noteq> [] \<and> CHR ''/'' \<notin> set repo)"

text \<open>
  The match the pattern has in a string, in the words of a regular expression: the
  occurrence that begins first, each group as long as it can be.  A group is followed by
  a slash or by the end of the string, and no occurrence begins further left.
\<close>

definition first_match :: "string \<Rightarrow> string \<Rightarrow> string \<Rightarrow> bool" where
  "first_match s owner repo =
     (\<exists>before after.
        s = before @ ''github.com/'' @ owner @ ''/'' @ repo @ after \<and>
        owner \<noteq> [] \<and> CHR ''/'' \<notin> set owner \<and> repo \<noteq> [] \<and> CHR ''/'' \<notin> set repo \<and>
        (after = [] \<or> hd after = CHR ''/'') \<and>
        \<not> (\<exists>b ow rp a.
             s = b @ ''github.com/'' @ ow @ ''/'' @ rp @ a \<and>
             ow \<noteq> [] \<and> CHR ''/'' \<notin> set ow \<and> rp \<noteq> [] \<and> CHR ''/'' \<notin> set rp \<and>
             length b < length before))"

text \<open>The token of the row a query returned; \<open>None\<close> when it has none.\<close>

fun token_of :: "user_row option \<Rightarrow> string option" where
  "token_of None = None"
| "token_of (Some r) = github_access_token r"

definition repo_request :: "string \<Rightarrow> string \<Rightarrow> user_row option \<Rightarrow> http_request" where
  "repo_request owner repo usr =
     \<lparr>url = ''https://api.github.com/repos/'' @ owner @ ''/'' @ repo,
      params = [],
      authorization = ''token '' @ template (token_of usr),
      accept = ''application/vnd.github.v3+json''\<rparr>"

text \<open>\<^verbatim>\<open>repositoryUrl.match(urlPattern)\<close>: only a string has the method.\<close>

fun string_match :: "jsval \<Rightarrow> js_error + (string \<times> string) option" where
  "string_match (JStr s) = Inr (urlPattern_match s)"
| "string_match v = Inl TypeError"

definition repository_summary :: "jsval \<Rightarrow> js_error + jsval" where
  "repository_summary repoData =
     (if nullish repoData then Inl TypeError
      else Inr (JObj
        [(''valid'', JBool True),
         (''repository'', JObj
            [(''id'', member_of repoData ''id''),
             (''name'', member_of repoData ''name''),
             (''full_name'', member_of repoData ''full_name''),
             (''default_branch'', member_of repoData ''default_branch''),
             (''visibility'', member_of repoData ''visibility'')])]))"

definition validate_failed :: response where
  "validate_failed = (500, error_body ''Failed to validate repository'')"

definition validateRepository :: "env \<Rightarrow> users_table \<Rightarrow> request \<Rightarrow> outcome" where
  "validateRepository en db req =
     (case user req of
        None \<Rightarrow> (validate_failed, db, [])
      | Some u \<Rightarrow>
          (let userId = js_or (uid u) (claim_id u) in
           case get_prop (body req) ''repositoryUrl'' of
             Inl e \<Rightarrow> (validate_failed, db, [])
           | Inr repositoryUrl \<Rightarrow>
               (case string_match repositoryUrl of
                  Inl e \<Rightarrow> (validate_failed, db, [])
                | Inr None \<Rightarrow> ((400, error_body InvalidRepositoryUrl), db, [])
                | Inr (Some (owner, repo)) \<Rightarrow>
                    (let (usr, userError) = select_single db ColFirebaseUid userId;
                         lookups = [DbSelectSingle ColFirebaseUid userId]
                     in if userError \<noteq> None \<or> \<not> has_token usr
                        then ((401, error_body GitHubAuthRequired), db, lookups)
                        else
                          (let rq = repo_request owner repo usr in
                           case fetch en rq of
                             FetchThrows \<Rightarrow> (validate_failed, db, lookups @ [HttpGet rq])
                           | FetchResponse st parsed \<Rightarrow>
                               (if \<not> ok st
                                then ((403, error_body RepositoryNotAccessible),
                                      db, lookups @ [HttpGet rq])
                                else
                                  (case parsed of
                                     None \<Rightarrow> (validate_failed, db, lookups @ [HttpGet rq])
                                   | Some repoData \<Rightarrow>
                                       (case repository_summary repoData of
                                          Inl e \<Rightarrow> (validate_failed, db, lookups @ [HttpGet rq])
                                        | Inr summary \<Rightarrow>
                                            ((200, summary), db, lookups @ [HttpGet rq])))))))))"

section \<open>Sample data\<close>

text \<open>
  A GitHub that gives one fixed answer, a table row, and a request of a caller known by
  its \<^verbatim>\<open>uid\<close>, for the concrete runs below.
\<close>

abbreviation github_answering :: "axios_result \<Rightarrow> fetch_result \<Rightarrow> env" where
  "github_answering a f \<equiv>
     \<lparr>axios = (\<lambda>rq. a), fetch = (\<lambda>rq. f), error_message = (\<lambda>e. ''TypeError'')\<rparr>"

abbreviation row_with :: "string \<Rightarrow> string \<Rightarrow> string option \<Rightarrow> user_row" where
  "row_with i f t \<equiv>
     \<lparr>row_id = i, firebase_uid = Some f, github_access_token = t, github_username = None\<rparr>"

abbreviation request_by :: "string \<Rightarrow> jsval \<Rightarrow> request" where
  "request_by caller b \<equiv>
     \<lparr>user = Some \<lparr>uid = Some caller, claim_firebase_uid = None, claim_id = None\<rparr>,
      param_owner = ''acme'', param_repo = ''widgets'', body = b\<rparr>"

section \<open>Effects and the credential lookup: basic facts\<close>

lemma http_calls_append: "http_calls (xs @ ys) = http_calls xs @ http_calls ys"
  by (induction xs rule: http_calls.induct) simp_all

lemma db_lookups_append: "db_lookups (xs @ ys) = db_lookups xs @ db_lookups ys"
  by (induction xs rule: db_lookups.induct) simp_all

lemma db_writes_append: "db_writes (xs @ ys) = db_writes xs @ db_writes ys"
  by (induction xs rule: db_writes.induct) simp_all

lemma find_user_primary:
  "has_token (fst (select_single db ColFirebaseUid k)) \<Longrightarrow>
   find_user db k = (fst (select_single db ColFirebaseUid k), [DbSelectSingle ColFirebaseUid k])"
  by (simp add: find_user_def case_prod_beta)

lemma find_user_fallback:
  "\<not> has_token (fst (select_single db ColFirebaseUid k)) \<Longrightarrow>
   has_token (fst (select_single db ColId k)) \<Longrightarrow>
   find_user db k =
     (fst (select_single db ColId k), [DbSelectSingle ColFirebaseUid k, DbSelectSingle ColId k])"
  by (simp add: find_user_def case_prod_beta)

lemma find_user_neither:
  "\<not> has_token (fst (select_single db ColFirebaseUid k)) \<Longrightarrow>
   \<not> has_token (fst (select_single db ColId k)) \<Longrightarrow>
   find_user db k = (None, [DbSelectSingle ColFirebaseUid k, DbSelectSingle ColId k])"
  by (simp add: find_user_def case_prod_beta)

lemma find_user_effects:
  "db_writes (snd (find_user db k)) = [] \<and> http_calls (snd (find_user db k)) = []"
  by (simp add: find_user_def Let_def case_prod_beta)

text \<open>The effects of getRepositories once the lookup has produced a row.\<close>

lemma getRepositories_found:
  assumes "user req = Some u"
    and "find_user db (js_or (js_or (uid u) (claim_firebase_uid u)) (claim_id u)) = (Some usr, tr)"
  shows "db_lookups (effects_of (getRepositories en db req)) = db_lookups tr"
    and "http_calls (effects_of (getRepositories en db req)) = http_calls tr @ [repos_request usr]"
  using assms
  by (simp_all add: getRepositories_def effects_of_def Let_def db_lookups_append http_calls_append
      split: axios_result.splits jsval.splits sum.splits)

lemma getRepositories_not_found:
  assumes "user req = Some u"
    and "find_user db (js_or (js_or (uid u) (claim_firebase_uid u)) (claim_id u)) = (None, tr)"
  shows "getRepositories en db req = (no_token_response, db, tr @ [DbSelectSample])"
  using assms by (simp add: getRepositories_def)

lemma getRepositoryBranches_found:
  assumes "user req = Some u"
    and "find_user db (js_or (js_or (uid u) (claim_firebase_uid u)) (claim_id u)) = (Some usr, tr)"
  shows "db_lookups (effects_of (getRepositoryBranches en db req)) = db_lookups tr"
    and "http_calls (effects_of (getRepositoryBranches en db req)) =
           http_calls tr @ [branches_request (param_owner req) (param_repo req) usr]"
  using assms
  by (simp_all add: getRepositoryBranches_def effects_of_def Let_def db_lookups_append
      http_calls_append split: fetch_result.splits option.splits)

lemma getRepositoryBranches_not_found:
  assumes "user req = Some u"
    and "find_user db (js_or (js_or (uid u) (claim_firebase_uid u)) (claim_id u)) = (None, tr)"
  shows "getRepositoryBranches en db req = (no_token_response, db, tr @ [DbSelectSample])"
  using assms by (simp add: getRepositoryBranches_def)

lemma has_token_iff:
  "has_token x \<longleftrightarrow> (\<exists>r t. x = Some r \<and> github_access_token r = Some t \<and> t \<noteq> [])"
proof (cases x)
  case None
  then show ?thesis by simp
next
  case (Some r)
  then show ?thesis by (cases "github_access_token r") simp_all
qed

lemma authorization_repos_request:
  "github_access_token r = Some t \<Longrightarrow> authorization (repos_request r) = ''token '' @ t"
  by (simp add: repos_request_def)

lemma authorization_branches_request:
  "github_access_token r = Some t \<Longrightarrow> authorization (branches_request ow rp r) = ''token '' @ t"
  by (simp add: branches_request_def)

text \<open>What a lister does, by the outcome of the credential lookup.\<close>

lemma lister_found:
  assumes "h = getRepositories \<or> h = getRepositoryBranches"
    and "user req = Some u"
    and "find_user db (js_or (js_or (uid u) (claim_firebase_uid u)) (claim_id u)) = (Some r, tr)"
    and "github_access_token r = Some t"
  shows "db_lookups (effects_of (h en db req)) = db_lookups tr"
    and "map authorization (http_calls (effects_of (h en db req))) =
           map authorization (http_calls tr) @ [''token '' @ t]"
  using assms getRepositories_found [of req u db r tr en]
    getRepositoryBranches_found [of req u db r tr en]
  by (auto simp: authorization_repos_request authorization_branches_request)

lemma lister_not_found:
  assumes "h = getRepositories \<or> h = getRepositoryBranches"
    and "user req = Some u"
    and "find_user db (js_or (js_or (uid u) (claim_firebase_uid u)) (claim_id u)) = (None, tr)"
  shows "h en db req = (no_token_response, db, tr @ [DbSelectSample])"
  using assms getRepositories_not_found [of req u db tr en]
    getRepositoryBranches_not_found [of req u db tr en]
  by auto

section \<open>Invalidation after an upstream 401\<close>

lemma eq_filter_token_update [simp]:
  "eq_filter c k (r\<lparr>github_access_token := t\<rparr>) = eq_filter c k r"
  by (cases c) (simp_all add: eq_filter_def)

lemma filter_clear_token:
  "filter (eq_filter c k) (clear_token db c' k') =
     map (\<lambda>r. if eq_filter c' k' r then r\<lparr>github_access_token := None\<rparr> else r)
       (filter (eq_filter c k) db)"
  by (induction db) (simp_all add: clear_token_def)

lemma select_single_clear_token:
  "fst (select_single (clear_token db c' k') c k) =
     map_option (\<lambda>r. if eq_filter c' k' r then r\<lparr>github_access_token := None\<rparr> else r)
       (fst (select_single db c k))"
  by (simp add: select_single_def single_def filter_clear_token split: list.splits)

lemma has_token_after_clear:
  "has_token (fst (select_single (clear_token db c' k') c k)) \<Longrightarrow>
   has_token (fst (select_single db c k)) \<and>
   (\<exists>r. fst (select_single db c k) = Some r \<and> \<not> eq_filter c' k' r)"
  by (cases "fst (select_single db c k)")
    (auto simp: select_single_clear_token split: if_splits)

lemma select_single_matches:
  "fst (select_single db c k) = Some r \<Longrightarrow> eq_filter c k r"
proof -
  assume a: "fst (select_single db c k) = Some r"
  then have "filter (eq_filter c k) db = [r]"
    by (auto simp: select_single_def single_def split: list.splits)
  then have "r \<in> set (filter (eq_filter c k) db)"
    by simp
  then show ?thesis
    by simp
qed

lemma no_token_by_cleared_key:
  "\<not> has_token (fst (select_single (clear_token db c k) c k))"
  using has_token_after_clear [of db c k c k] select_single_matches [of db c k]
  by blast

text \<open>
  Claim C1.  When GitHub answers the list call with 401, getRepositories is to clear the
  stored token, so that the next credential lookup for the same caller identity fails,
  whichever of the two keys resolved the token.  The update is filtered on
  \<^verbatim>\<open>firebase_uid\<close> alone.  For a caller whose identity is the row's \<^verbatim>\<open>id\<close> (the
  fallback of the lookup) the update matches no row: the response is the 401, the table
  is unchanged, and the same lookup finds the same token again.
\<close>

theorem fallback_token_survives_401:
  "response_of (getRepositories
      \<lparr>axios = (\<lambda>rq. AxiosErr (Some 401) ''Request failed with status code 401''),
       fetch = (\<lambda>rq. FetchThrows), error_message = (\<lambda>e. [])\<rparr>
      [\<lparr>row_id = ''42'', firebase_uid = Some ''fb-abc'',
        github_access_token = Some ''gho_x'', github_username = Some ''octo''\<rparr>]
      \<lparr>user = Some \<lparr>uid = None, claim_firebase_uid = None, claim_id = Some ''42''\<rparr>,
       param_owner = [], param_repo = [], body = JUndefined\<rparr>)
    = (401, JObj [(''error'', JStr ''GitHub authentication required''),
         (''message'', JStr ''Your GitHub token has expired or is invalid. Please reconnect your GitHub account.'')])
   \<and> table_of (getRepositories
      \<lparr>axios = (\<lambda>rq. AxiosErr (Some 401) ''Request failed with status code 401''),
       fetch = (\<lambda>rq. FetchThrows), error_message = (\<lambda>e. [])\<rparr>
      [\<lparr>row_id = ''42'', firebase_uid = Some ''fb-abc'',
        github_access_token = Some ''gho_x'', github_username = Some ''octo''\<rparr>]
      \<lparr>user = Some \<lparr>uid = None, claim_firebase_uid = None, claim_id = Some ''42''\<rparr>,
       param_owner = [], param_repo = [], body = JUndefined\<rparr>)
    = [\<lparr>row_id = ''42'', firebase_uid = Some ''fb-abc'',
        github_access_token = Some ''gho_x'', github_username = Some ''octo''\<rparr>]
   \<and> fst (find_user (table_of (getRepositories
      \<lparr>axios = (\<lambda>rq. AxiosErr (Some 401) ''Request failed with status code 401''),
       fetch = (\<lambda>rq. FetchThrows), error_message = (\<lambda>e. [])\<rparr>
      [\<lparr>row_id = ''42'', firebase_uid = Some ''fb-abc'',
        github_access_token = Some ''gho_x'', github_username = Some ''octo''\<rparr>]
      \<lparr>user = Some \<lparr>uid = None, claim_firebase_uid = None, claim_id = Some ''42''\<rparr>,
       param_owner = [], param_repo = [], body = JUndefined\<rparr>))
      (Some ''42''))
    = Some \<lparr>row_id = ''42'', firebase_uid = Some ''fb-abc'',
        github_access_token = Some ''gho_x'', github_username = Some ''octo''\<rparr>"
  by (simp add: getRepositories_def response_of_def table_of_def find_user_def select_single_def
      single_def eq_filter_def js_or_def repos_request_def clear_token_def Let_def
      error_message_body_def GitHubAuthRequired_def)

text \<open>
  The invalidation does what it is for when the token was found by \<^verbatim>\<open>firebase_uid\<close>
  and no row with a token answers to the caller identity as an \<^verbatim>\<open>id\<close>: after the 401
  the same lookup finds nothing.
\<close>

lemma token_found_by_firebase_uid_is_cleared:
  assumes u: "user req = Some u"
    and k: "k = js_or (js_or (uid u) (claim_firebase_uid u)) (claim_id u)"
    and r: "fst (select_single db ColFirebaseUid k) = Some r"
    and t: "truthy (github_access_token r)"
    and i: "\<not> has_token (fst (select_single db ColId k))"
    and a: "axios en (repos_request r) = AxiosErr (Some 401) msg"
  shows "fst (response_of (getRepositories en db req)) = 401 \<and>
         table_of (getRepositories en db req) = clear_token db ColFirebaseUid k \<and>
         fst (find_user (table_of (getRepositories en db req)) k) = None"
proof -
  have f: "find_user db k = (Some r, [DbSelectSingle ColFirebaseUid k])"
    using find_user_primary [of db k] r t by simp
  have g: "getRepositories en db req =
      ((401, error_message_body GitHubAuthRequired
          ''Your GitHub token has expired or is invalid. Please reconnect your GitHub account.''),
       clear_token db ColFirebaseUid k,
       [DbSelectSingle ColFirebaseUid k] @ [HttpGet (repos_request r), DbClearToken ColFirebaseUid k])"
    using u f a by (simp add: getRepositories_def k Let_def)
  have p: "\<not> has_token (fst (select_single (clear_token db ColFirebaseUid k) ColFirebaseUid k))"
    by (rule no_token_by_cleared_key)
  have q: "\<not> has_token (fst (select_single (clear_token db ColFirebaseUid k) ColId k))"
    using has_token_after_clear [of db ColFirebaseUid k ColId k] i by blast
  show ?thesis
    using find_user_neither [OF p q] by (simp add: g response_of_def table_of_def)
qed

section \<open>Precedence of the two lookup keys\<close>

text \<open>
  Claim C2, as the claim states it, fails for a stored token that is the empty string:
  the handlers test the token for truthiness, so a row found by \<^verbatim>\<open>firebase_uid\<close> whose
  token is \<^verbatim>\<open>""\<close> (which is not null) is not used, and the lookup by \<^verbatim>\<open>id\<close> is
  performed.  Below, the only row is found by \<^verbatim>\<open>firebase_uid\<close>, its token is the empty
  string, and getRepositories queries both keys and calls GitHub not at all.
\<close>

theorem empty_token_falls_back:
  "fst (select_single [row_with ''1'' ''u'' (Some [])] ColFirebaseUid (Some ''u'')) =
     Some (row_with ''1'' ''u'' (Some [])) \<and>
   github_access_token (row_with ''1'' ''u'' (Some [])) = Some [] \<and>
   db_lookups (effects_of (getRepositories (github_answering (AxiosOk (JArr [])) FetchThrows)
     [row_with ''1'' ''u'' (Some [])] (request_by ''u'' JUndefined))) =
     [(ColFirebaseUid, Some ''u''), (ColId, Some ''u'')] \<and>
   http_calls (effects_of (getRepositories (github_answering (AxiosOk (JArr [])) FetchThrows)
     [row_with ''1'' ''u'' (Some [])] (request_by ''u'' JUndefined))) = []"
  by (simp add: getRepositories_def effects_of_def find_user_def select_single_def single_def
      eq_filter_def js_or_def Let_def)

text \<open>
  Claim C2, amended.  In getRepositories and getRepositoryBranches, for a request with a
  caller identity \<open>k\<close>: when the query by \<^verbatim>\<open>firebase_uid\<close> returns a row whose token is
  neither null nor empty, that query is the only lookup and GitHub is called once, with
  that token; otherwise the lookups are the query by \<^verbatim>\<open>firebase_uid\<close> followed by the
  query by \<^verbatim>\<open>id\<close>, and when the latter returns a row whose token is neither null nor
  empty, GitHub is called once, with that token.
\<close>

theorem credential_lookup_precedence:
  assumes h: "h = getRepositories \<or> h = getRepositoryBranches"
    and u: "user req = Some u"
    and k: "k = js_or (js_or (uid u) (claim_firebase_uid u)) (claim_id u)"
  shows
    "(\<forall>r t. fst (select_single db ColFirebaseUid k) = Some r \<and>
            github_access_token r = Some t \<and> t \<noteq> [] \<longrightarrow>
        db_lookups (effects_of (h en db req)) = [(ColFirebaseUid, k)] \<and>
        map authorization (http_calls (effects_of (h en db req))) = [''token '' @ t]) \<and>
     (\<not> (\<exists>r t. fst (select_single db ColFirebaseUid k) = Some r \<and>
            github_access_token r = Some t \<and> t \<noteq> []) \<longrightarrow>
        db_lookups (effects_of (h en db req)) = [(ColFirebaseUid, k), (ColId, k)] \<and>
        (\<forall>r t. fst (select_single db ColId k) = Some r \<and>
            github_access_token r = Some t \<and> t \<noteq> [] \<longrightarrow>
          map authorization (http_calls (effects_of (h en db req))) = [''token '' @ t]))"
proof (intro conjI allI impI)
  fix r t
  assume a: "fst (select_single db ColFirebaseUid k) = Some r \<and>
    github_access_token r = Some t \<and> t \<noteq> []"
  then have "has_token (fst (select_single db ColFirebaseUid k))"
    by (auto simp: has_token_iff)
  then have f: "find_user db k = (Some r, [DbSelectSingle ColFirebaseUid k])"
    using a by (simp add: find_user_primary)
  show "db_lookups (effects_of (h en db req)) = [(ColFirebaseUid, k)]"
    using lister_found(1) [OF h u f [unfolded k]] a by (simp add: k)
  show "map authorization (http_calls (effects_of (h en db req))) = [''token '' @ t]"
    using lister_found(2) [OF h u f [unfolded k]] a by simp
next
  assume n: "\<not> (\<exists>r t. fst (select_single db ColFirebaseUid k) = Some r \<and>
    github_access_token r = Some t \<and> t \<noteq> [])"
  then have np: "\<not> has_token (fst (select_single db ColFirebaseUid k))"
    by (simp add: has_token_iff)
  show "db_lookups (effects_of (h en db req)) = [(ColFirebaseUid, k), (ColId, k)]"
  proof (cases "has_token (fst (select_single db ColId k))")
    case True
    then obtain r t where r: "fst (select_single db ColId k) = Some r"
      and t: "github_access_token r = Some t"
      by (auto simp: has_token_iff)
    have f: "find_user db k = (Some r, [DbSelectSingle ColFirebaseUid k, DbSelectSingle ColId k])"
      using find_user_fallback [OF np True] r by simp
    show ?thesis
      using lister_found(1) [OF h u f [unfolded k] t] by (simp add: k)
  next
    case False
    have f: "find_user db k = (None, [DbSelectSingle ColFirebaseUid k, DbSelectSingle ColId k])"
      using find_user_neither [OF np False] .
    show ?thesis
      using lister_not_found [OF h u f [unfolded k]]
      by (simp add: effects_of_def db_lookups_append k)
  qed
  fix r t
  assume a: "fst (select_single db ColId k) = Some r \<and>
    github_access_token r = Some t \<and> t \<noteq> []"
  then have "has_token (fst (select_single db ColId k))"
    by (auto simp: has_token_iff)
  then have f: "find_user db k = (Some r, [DbSelectSingle ColFirebaseUid k, DbSelectSingle ColId k])"
    using find_user_fallback [OF np] a by simp
  show "map authorization (http_calls (effects_of (h en db req))) = [''token '' @ t]"
    using lister_found(2) [OF h u f [unfolded k]] a by simp
qed

theorem credential_lookup_precedence_witness:
  "db_lookups (effects_of (getRepositories (github_answering (AxiosOk (JArr [])) FetchThrows)
     [row_with ''1'' ''u'' (Some ''t1''), row_with ''u'' ''x'' (Some ''t2'')]
     (request_by ''u'' JUndefined))) = [(ColFirebaseUid, Some ''u'')] \<and>
   map authorization (http_calls (effects_of (getRepositories
     (github_answering (AxiosOk (JArr [])) FetchThrows)
     [row_with ''1'' ''u'' (Some ''t1''), row_with ''u'' ''x'' (Some ''t2'')]
     (request_by ''u'' JUndefined)))) = [''token t1''] \<and>
   db_lookups (effects_of (getRepositoryBranches (github_answering (AxiosOk (JArr [])) FetchThrows)
     [row_with ''u'' ''x'' (Some ''t2'')] (request_by ''u'' JUndefined))) =
     [(ColFirebaseUid, Some ''u''), (ColId, Some ''u'')] \<and>
   map authorization (http_calls (effects_of (getRepositoryBranches
     (github_answering (AxiosOk (JArr [])) FetchThrows)
     [row_with ''u'' ''x'' (Some ''t2'')] (request_by ''u'' JUndefined)))) = [''token t2'']"
proof -
  have k: "Some ''u'' = js_or (js_or (uid \<lparr>uid = Some ''u'', claim_firebase_uid = None,
    claim_id = None\<rparr>) (claim_firebase_uid \<lparr>uid = Some ''u'', claim_firebase_uid = None,
    claim_id = None\<rparr>)) (claim_id \<lparr>uid = Some ''u'', claim_firebase_uid = None,
    claim_id = None\<rparr>)"
    by (simp add: js_or_def)
  have p: "fst (select_single [row_with ''1'' ''u'' (Some ''t1''), row_with ''u'' ''x'' (Some ''t2'')]
      ColFirebaseUid (Some ''u'')) = Some (row_with ''1'' ''u'' (Some ''t1''))"
    by (simp add: select_single_def single_def eq_filter_def)
  have n: "\<not> (\<exists>r t. fst (select_single [row_with ''u'' ''x'' (Some ''t2'')] ColFirebaseUid
      (Some ''u'')) = Some r \<and> github_access_token r = Some t \<and> t \<noteq> [])"
    by (simp add: select_single_def single_def eq_filter_def)
  have i: "fst (select_single [row_with ''u'' ''x'' (Some ''t2'')] ColId (Some ''u'')) =
      Some (row_with ''u'' ''x'' (Some ''t2''))"
    by (simp add: select_single_def single_def eq_filter_def)
  have a: "db_lookups (effects_of (getRepositories (github_answering (AxiosOk (JArr [])) FetchThrows)
     [row_with ''1'' ''u'' (Some ''t1''), row_with ''u'' ''x'' (Some ''t2'')]
     (request_by ''u'' JUndefined))) = [(ColFirebaseUid, Some ''u'')] \<and>
   map authorization (http_calls (effects_of (getRepositories
     (github_answering (AxiosOk (JArr [])) FetchThrows)
     [row_with ''1'' ''u'' (Some ''t1''), row_with ''u'' ''x'' (Some ''t2'')]
     (request_by ''u'' JUndefined)))) = [''token t1'']"
    using credential_lookup_precedence [where h = getRepositories
        and req = "request_by ''u'' JUndefined" and k = "Some ''u''"
        and db = "[row_with ''1'' ''u'' (Some ''t1''), row_with ''u'' ''x'' (Some ''t2'')]"
        and en = "github_answering (AxiosOk (JArr [])) FetchThrows", OF _ _ k] p
    by simp
  have b: "db_lookups (effects_of (getRepositoryBranches
     (github_answering (AxiosOk (JArr [])) FetchThrows)
     [row_with ''u'' ''x'' (Some ''t2'')] (request_by ''u'' JUndefined))) =
     [(ColFirebaseUid, Some ''u''), (ColId, Some ''u'')] \<and>
   map authorization (http_calls (effects_of (getRepositoryBranches
     (github_answering (AxiosOk (JArr [])) FetchThrows)
     [row_with ''u'' ''x'' (Some ''t2'')] (request_by ''u'' JUndefined)))) = [''token t2'']"
    using credential_lookup_precedence [where h = getRepositoryBranches
        and req = "request_by ''u'' JUndefined" and k = "Some ''u''"
        and db = "[row_with ''u'' ''x'' (Some ''t2'')]"
        and en = "github_answering (AxiosOk (JArr [])) FetchThrows", OF _ _ k] n i
    by simp
  from a b show ?thesis by simp
qed

section \<open>No credential under either key\<close>

text \<open>
  Claim C3.  In getRepositories and getRepositoryBranches, when neither the query by
  \<^verbatim>\<open>firebase_uid\<close> nor the query by \<^verbatim>\<open>id\<close> returns a row with a non-null token, the
  response is 401 with the error \<^verbatim>\<open>GitHub authentication required\<close> and GitHub is not
  called.
\<close>

theorem no_credential_is_401:
  assumes h: "h = getRepositories \<or> h = getRepositoryBranches"
    and u: "user req = Some u"
    and k: "k = js_or (js_or (uid u) (claim_firebase_uid u)) (claim_id u)"
    and p: "\<not> (\<exists>r t. fst (select_single db ColFirebaseUid k) = Some r \<and>
              github_access_token r = Some t)"
    and i: "\<not> (\<exists>r t. fst (select_single db ColId k) = Some r \<and>
              github_access_token r = Some t)"
  shows "response_of (h en db req) =
           (401, JObj [(''error'', JStr ''GitHub authentication required''),
                       (''message'', JStr ''No GitHub access token found for your account. Please sign in with GitHub again.'')]) \<and>
         http_calls (effects_of (h en db req)) = []"
proof -
  have np: "\<not> has_token (fst (select_single db ColFirebaseUid k))"
    using p by (auto simp: has_token_iff)
  have ni: "\<not> has_token (fst (select_single db ColId k))"
    using i by (auto simp: has_token_iff)
  have f: "find_user db k = (None, [DbSelectSingle ColFirebaseUid k, DbSelectSingle ColId k])"
    using find_user_neither [OF np ni] .
  show ?thesis
    using lister_not_found [OF h u f [unfolded k]]
    by (simp add: response_of_def effects_of_def no_token_response_def error_message_body_def
        GitHubAuthRequired_def)
qed


theorem no_credential_is_401_witness:
  "response_of (getRepositoryBranches (github_answering (AxiosOk (JArr [])) FetchThrows)
      [row_with ''1'' ''u'' None] (request_by ''u'' JUndefined)) =
     (401, JObj [(''error'', JStr ''GitHub authentication required''),
                 (''message'', JStr ''No GitHub access token found for your account. Please sign in with GitHub again.'')]) \<and>
   http_calls (effects_of (getRepositoryBranches (github_answering (AxiosOk (JArr [])) FetchThrows)
      [row_with ''1'' ''u'' None] (request_by ''u'' JUndefined))) = []"
proof -
  have k: "Some ''u'' = js_or (js_or (uid \<lparr>uid = Some ''u'', claim_firebase_uid = None,
    claim_id = None\<rparr>) (claim_firebase_uid \<lparr>uid = Some ''u'', claim_firebase_uid = None,
    claim_id = None\<rparr>)) (claim_id \<lparr>uid = Some ''u'', claim_firebase_uid = None,
    claim_id = None\<rparr>)"
    by (simp add: js_or_def)
  have p: "\<not> (\<exists>r t. fst (select_single [row_with ''1'' ''u'' None] ColFirebaseUid (Some ''u'')) =
      Some r \<and> github_access_token r = Some t)"
    by (simp add: select_single_def single_def eq_filter_def)
  have i: "\<not> (\<exists>r t. fst (select_single [row_with ''1'' ''u'' None] ColId (Some ''u'')) =
      Some r \<and> github_access_token r = Some t)"
    by (simp add: select_single_def single_def eq_filter_def)
  show ?thesis
    by (rule no_credential_is_401 [OF _ _ k p i]) simp_all
qed

section \<open>The URL pattern\<close>

lemma take_literal: "take 11 (''github.com/'' @ xs) = ''github.com/''"
  by simp

lemma drop_literal: "drop 11 (''github.com/'' @ xs) = xs"
  by simp

text \<open>A match at the start of the string has the shape of the pattern, and each group
  is the longest run it can be.\<close>

lemma match_here_shape:
  assumes "match_here s = Some (owner, repo)"
  shows "\<exists>after. s = ''github.com/'' @ owner @ ''/'' @ repo @ after \<and>
           owner \<noteq> [] \<and> CHR ''/'' \<notin> set owner \<and> repo \<noteq> [] \<and> CHR ''/'' \<notin> set repo \<and>
           (after = [] \<or> hd after = CHR ''/'')"
proof -
  define rest where "rest = drop 11 s"
  define after_owner where "after_owner = dropWhile not_slash rest"
  from assms have lit: "take 11 s = ''github.com/''"
    by (simp add: match_here_def split: if_splits)
  from assms lit have owner: "owner = takeWhile not_slash rest" and o: "owner \<noteq> []"
    and ao: "after_owner \<noteq> []"
    and repo: "repo = takeWhile not_slash (tl after_owner)" and r: "repo \<noteq> []"
    by (auto simp: match_here_def Let_def rest_def after_owner_def split: if_splits)
  have s: "s = ''github.com/'' @ rest"
    using lit append_take_drop_id [of 11 s] by (simp add: rest_def)
  have "\<not> not_slash (hd after_owner)"
    using ao hd_dropWhile [of not_slash rest] by (simp add: after_owner_def)
  then have "hd after_owner = CHR ''/''"
    by (simp add: not_slash_def)
  then have ao': "after_owner = CHR ''/'' # tl after_owner"
    using ao by (cases after_owner) simp_all
  have "rest = owner @ after_owner"
    by (simp add: owner after_owner_def)
  also have "\<dots> = owner @ ''/'' @ tl after_owner"
    using ao' by simp
  also have "tl after_owner = repo @ dropWhile not_slash (tl after_owner)"
    by (simp add: repo)
  finally have rest: "rest = owner @ ''/'' @ repo @ dropWhile not_slash (tl after_owner)" .
  have no: "CHR ''/'' \<notin> set owner"
    using set_takeWhileD [of _ not_slash rest] by (auto simp: owner not_slash_def)
  have nr: "CHR ''/'' \<notin> set repo"
    using set_takeWhileD [of _ not_slash "tl after_owner"] by (auto simp: repo not_slash_def)
  have tail: "dropWhile not_slash (tl after_owner) = [] \<or>
      hd (dropWhile not_slash (tl after_owner)) = CHR ''/''"
    using hd_dropWhile [of not_slash "tl after_owner"] by (auto simp: not_slash_def)
  show ?thesis
    using s rest o no r nr tail by blast
qed

lemma match_here_finds:
  assumes "owner \<noteq> []" and "CHR ''/'' \<notin> set owner" and "repo \<noteq> []" and "CHR ''/'' \<notin> set repo"
  shows "match_here (''github.com/'' @ owner @ ''/'' @ repo @ after) =
           Some (owner, repo @ takeWhile not_slash after)"
proof -
  have o: "\<And>c. c \<in> set owner \<Longrightarrow> not_slash c" and r: "\<And>c. c \<in> set repo \<Longrightarrow> not_slash c"
    using assms by (auto simp: not_slash_def)
  have t: "takeWhile not_slash (owner @ ''/'' @ repo @ after) = owner"
    using o by (simp add: not_slash_def)
  have d: "dropWhile not_slash (owner @ ''/'' @ repo @ after) = ''/'' @ repo @ after"
    using o by (simp add: not_slash_def)
  have t2: "takeWhile not_slash (repo @ after) = repo @ takeWhile not_slash after"
    using r by simp
  show ?thesis
    unfolding match_here_def take_literal drop_literal Let_def t d
    using assms(1,3) by (simp add: t2)
qed

lemma urlPattern_match_shape:
  "urlPattern_match s = Some (owner, repo) \<Longrightarrow>
   \<exists>before after. s = before @ ''github.com/'' @ owner @ ''/'' @ repo @ after \<and>
     owner \<noteq> [] \<and> CHR ''/'' \<notin> set owner \<and> repo \<noteq> [] \<and> CHR ''/'' \<notin> set repo \<and>
     (after = [] \<or> hd after = CHR ''/'')"
proof (induction s)
  case Nil
  then show ?case by simp
next
  case (Cons c cs)
  show ?case
  proof (cases "match_here (c # cs)")
    case None
    with Cons.prems have "urlPattern_match cs = Some (owner, repo)"
      by simp
    from Cons.IH [OF this] obtain before after where
      "cs = before @ ''github.com/'' @ owner @ ''/'' @ repo @ after \<and>
       owner \<noteq> [] \<and> CHR ''/'' \<notin> set owner \<and> repo \<noteq> [] \<and> CHR ''/'' \<notin> set repo \<and>
       (after = [] \<or> hd after = CHR ''/'')"
      by blast
    then have "c # cs = (c # before) @ ''github.com/'' @ owner @ ''/'' @ repo @ after \<and>
       owner \<noteq> [] \<and> CHR ''/'' \<notin> set owner \<and> repo \<noteq> [] \<and> CHR ''/'' \<notin> set repo \<and>
       (after = [] \<or> hd after = CHR ''/'')"
      by simp
    then show ?thesis by blast
  next
    case (Some m)
    with Cons.prems have "match_here (c # cs) = Some (owner, repo)"
      by simp
    from match_here_shape [OF this] obtain after where
      "c # cs = [] @ ''github.com/'' @ owner @ ''/'' @ repo @ after \<and>
       owner \<noteq> [] \<and> CHR ''/'' \<notin> set owner \<and> repo \<noteq> [] \<and> CHR ''/'' \<notin> set repo \<and>
       (after = [] \<or> hd after = CHR ''/'')"
      by auto
    then show ?thesis by blast
  qed
qed

lemma urlPattern_match_finds:
  assumes "owner \<noteq> []" and "CHR ''/'' \<notin> set owner" and "repo \<noteq> []" and "CHR ''/'' \<notin> set repo"
  shows "urlPattern_match (before @ ''github.com/'' @ owner @ ''/'' @ repo @ after) \<noteq> None"
proof (induction before)
  case Nil
  show ?case
    using match_here_finds [OF assms, of after] by simp
next
  case (Cons b before)
  then show ?case
    by (simp split: option.splits)
qed

lemma urlPattern_match_None_iff: "urlPattern_match s = None \<longleftrightarrow> \<not> pattern_occurs s"
proof
  assume n: "urlPattern_match s = None"
  show "\<not> pattern_occurs s"
  proof
    assume "pattern_occurs s"
    then obtain before owner repo after where
      "s = before @ ''github.com/'' @ owner @ ''/'' @ repo @ after"
      "owner \<noteq> []" "CHR ''/'' \<notin> set owner" "repo \<noteq> []" "CHR ''/'' \<notin> set repo"
      unfolding pattern_occurs_def by blast
    with urlPattern_match_finds [of owner repo before after] n show False
      by simp
  qed
next
  assume n: "\<not> pattern_occurs s"
  show "urlPattern_match s = None"
  proof (rule ccontr)
    assume "urlPattern_match s \<noteq> None"
    then obtain owner repo where "urlPattern_match s = Some (owner, repo)"
      by auto
    from urlPattern_match_shape [OF this] have "pattern_occurs s"
      unfolding pattern_occurs_def by blast
    with n show False ..
  qed
qed

lemma match_here_Nil: "match_here [] = None"
  by (simp add: match_here_def)

text \<open>The match \<^verbatim>\<open>String.prototype.match\<close> returns is a match at some position, and no
  position before it has one.\<close>

lemma urlPattern_match_position:
  "urlPattern_match s = Some m \<Longrightarrow>
   \<exists>before rest. s = before @ rest \<and> match_here rest = Some m \<and>
     (\<forall>b r. s = b @ r \<and> length b < length before \<longrightarrow> match_here r = None)"
proof (induction s)
  case Nil
  then show ?case by simp
next
  case (Cons c cs)
  show ?case
  proof (cases "match_here (c # cs)")
    case (Some m')
    with Cons.prems have "match_here (c # cs) = Some m"
      by simp
    then have "c # cs = [] @ (c # cs) \<and> match_here (c # cs) = Some m \<and>
        (\<forall>b r. c # cs = b @ r \<and> length b < length ([] :: string) \<longrightarrow> match_here r = None)"
      by simp
    then show ?thesis by blast
  next
    case None
    with Cons.prems have "urlPattern_match cs = Some m"
      by simp
    from Cons.IH [OF this] obtain before rest where
      s: "cs = before @ rest" and m: "match_here rest = Some m"
      and l: "\<forall>b r. cs = b @ r \<and> length b < length before \<longrightarrow> match_here r = None"
      by blast
    have "\<forall>b r. c # cs = b @ r \<and> length b < length (c # before) \<longrightarrow> match_here r = None"
    proof (intro allI impI)
      fix b r
      assume a: "c # cs = b @ r \<and> length b < length (c # before)"
      show "match_here r = None"
      proof (cases b)
        case Nil
        with a None show ?thesis by simp
      next
        case (Cons b0 bs)
        with a have "cs = bs @ r \<and> length bs < length before"
          by simp
        with l show ?thesis by blast
      qed
    qed
    with s m have "c # cs = (c # before) @ rest \<and> match_here rest = Some m \<and>
        (\<forall>b r. c # cs = b @ r \<and> length b < length (c # before) \<longrightarrow> match_here r = None)"
      by simp
    then show ?thesis by blast
  qed
qed

lemma urlPattern_match_at_first_position:
  "match_here rest = Some m \<Longrightarrow>
   (\<forall>b r. before @ rest = b @ r \<and> length b < length before \<longrightarrow> match_here r = None) \<Longrightarrow>
   urlPattern_match (before @ rest) = Some m"
proof (induction before)
  case Nil
  then show ?case
    by (cases rest) (simp_all add: match_here_Nil)
next
  case (Cons c before)
  have "(c # before) @ rest = [] @ (c # before @ rest) \<and> length ([] :: string) < length (c # before)"
    by simp
  with Cons.prems(2) have "match_here (c # before @ rest) = None"
    by blast
  moreover have "\<forall>b r. before @ rest = b @ r \<and> length b < length before \<longrightarrow> match_here r = None"
  proof (intro allI impI)
    fix b r
    assume "before @ rest = b @ r \<and> length b < length before"
    then have "(c # before) @ rest = (c # b) @ r \<and> length (c # b) < length (c # before)"
      by simp
    with Cons.prems(2) show "match_here r = None"
      by blast
  qed
  ultimately show ?case
    using Cons.IH [OF Cons.prems(1)] by simp
qed

lemma urlPattern_match_first_match:
  "urlPattern_match s = Some (owner, repo) \<longleftrightarrow> first_match s owner repo"
proof
  assume "urlPattern_match s = Some (owner, repo)"
  from urlPattern_match_position [OF this] obtain before rest where
    s: "s = before @ rest" and m: "match_here rest = Some (owner, repo)"
    and l: "\<forall>b r. s = b @ r \<and> length b < length before \<longrightarrow> match_here r = None"
    by blast
  from match_here_shape [OF m] obtain after where
    r: "rest = ''github.com/'' @ owner @ ''/'' @ repo @ after"
    and c: "owner \<noteq> []" "CHR ''/'' \<notin> set owner" "repo \<noteq> []" "CHR ''/'' \<notin> set repo"
      "after = [] \<or> hd after = CHR ''/''"
    by blast
  have "\<not> (\<exists>b ow rp a.
             s = b @ ''github.com/'' @ ow @ ''/'' @ rp @ a \<and>
             ow \<noteq> [] \<and> CHR ''/'' \<notin> set ow \<and> rp \<noteq> [] \<and> CHR ''/'' \<notin> set rp \<and>
             length b < length before)"
  proof
    assume "\<exists>b ow rp a.
             s = b @ ''github.com/'' @ ow @ ''/'' @ rp @ a \<and>
             ow \<noteq> [] \<and> CHR ''/'' \<notin> set ow \<and> rp \<noteq> [] \<and> CHR ''/'' \<notin> set rp \<and>
             length b < length before"
    then obtain b ow rp a where e: "s = b @ (''github.com/'' @ ow @ ''/'' @ rp @ a)"
      and o: "ow \<noteq> []" "CHR ''/'' \<notin> set ow" "rp \<noteq> []" "CHR ''/'' \<notin> set rp"
      and n: "length b < length before"
      by auto
    from l e n have "match_here (''github.com/'' @ ow @ ''/'' @ rp @ a) = None"
      by blast
    with match_here_finds [OF o, of a] show False
      by simp
  qed
  with s r c show "first_match s owner repo"
    unfolding first_match_def by blast
next
  assume "first_match s owner repo"
  then obtain before after where
    s: "s = before @ (''github.com/'' @ owner @ ''/'' @ repo @ after)"
    and c: "owner \<noteq> []" "CHR ''/'' \<notin> set owner" "repo \<noteq> []" "CHR ''/'' \<notin> set repo"
    and g: "after = [] \<or> hd after = CHR ''/''"
    and l: "\<not> (\<exists>b ow rp a.
             s = b @ ''github.com/'' @ ow @ ''/'' @ rp @ a \<and>
             ow \<noteq> [] \<and> CHR ''/'' \<notin> set ow \<and> rp \<noteq> [] \<and> CHR ''/'' \<notin> set rp \<and>
             length b < length before)"
    unfolding first_match_def by auto
  have "takeWhile not_slash after = []"
    using g by (cases after) (auto simp: not_slash_def)
  then have m: "match_here (''github.com/'' @ owner @ ''/'' @ repo @ after) = Some (owner, repo)"
    using match_here_finds [OF c, of after] by simp
  have "\<forall>b r. before @ (''github.com/'' @ owner @ ''/'' @ repo @ after) = b @ r \<and>
      length b < length before \<longrightarrow> match_here r = None"
  proof (intro allI impI)
    fix b r
    assume a: "before @ (''github.com/'' @ owner @ ''/'' @ repo @ after) = b @ r \<and>
      length b < length before"
    show "match_here r = None"
    proof (rule ccontr)
      assume "match_here r \<noteq> None"
      then obtain ow rp where "match_here r = Some (ow, rp)"
        by auto
      from match_here_shape [OF this] obtain a' where
        "r = ''github.com/'' @ ow @ ''/'' @ rp @ a'"
        "ow \<noteq> []" "CHR ''/'' \<notin> set ow" "rp \<noteq> []" "CHR ''/'' \<notin> set rp"
        by blast
      with a s have "s = b @ ''github.com/'' @ ow @ ''/'' @ rp @ a' \<and>
             ow \<noteq> [] \<and> CHR ''/'' \<notin> set ow \<and> rp \<noteq> [] \<and> CHR ''/'' \<notin> set rp \<and>
             length b < length before"
        by simp
      with l show False by blast
    qed
  qed
  from urlPattern_match_at_first_position [OF m this] s
  show "urlPattern_match s = Some (owner, repo)"
    by simp
qed

section \<open>Parsing the repository URL\<close>

text \<open>What validateRepository does once the pattern has matched.\<close>

lemma validateRepository_parsed:
  assumes u: "user req = Some u"
    and b: "get_prop (body req) ''repositoryUrl'' = Inr (JStr s)"
    and m: "urlPattern_match s = Some (owner, repo)"
  shows "fst (response_of (validateRepository en db req)) \<noteq> 400"
    and "db_lookups (effects_of (validateRepository en db req)) =
           [(ColFirebaseUid, js_or (uid u) (claim_id u))]"
    and "select_single db ColFirebaseUid (js_or (uid u) (claim_id u)) = (Some row, None) \<Longrightarrow>
         truthy (github_access_token row) \<Longrightarrow>
         map url (http_calls (effects_of (validateRepository en db req))) =
           [''https://api.github.com/repos/'' @ owner @ ''/'' @ repo]"
  using u b m
  by (simp_all add: validateRepository_def response_of_def effects_of_def Let_def
      db_lookups_append http_calls_append validate_failed_def repo_request_def
      split: prod.splits fetch_result.splits option.splits sum.splits)

text \<open>
  Claim C4.  validateRepository parses owner and repository with one unanchored match of
  \<^verbatim>\<open>github.com/<owner>/<repo>\<close>.  The URL \<^verbatim>\<open>https://github.com/acme/widgets\<close> parses
  to \<^verbatim>\<open>acme\<close> and \<^verbatim>\<open>widgets\<close>, and in general the match returns exactly the first
  occurrence of the pattern in the string, with each group as long as it can be; it
  fails exactly when the pattern occurs nowhere.  The handler acts on that match: for a
  string in which the pattern occurs nowhere it answers 400 with the error
  \<^verbatim>\<open>Invalid GitHub repository URL\<close>, having queried neither the table nor GitHub; for
  a string in which it occurs, the handler does not answer 400, it looks the caller up,
  and with a stored token it asks GitHub for \<^verbatim>\<open>/repos/<owner>/<repo>\<close> of the owner
  and repository matched, \<^verbatim>\<open>/repos/acme/widgets\<close> for the URL above.
\<close>

theorem repository_url_parsing:
  "urlPattern_match ''https://github.com/acme/widgets'' = Some (''acme'', ''widgets'') \<and>
   (\<forall>s owner repo. urlPattern_match s = Some (owner, repo) \<longleftrightarrow> first_match s owner repo) \<and>
   (\<forall>s. pattern_occurs s \<longleftrightarrow> urlPattern_match s \<noteq> None) \<and>
   (\<forall>en db req u s.
      user req = Some u \<and> get_prop (body req) ''repositoryUrl'' = Inr (JStr s) \<longrightarrow>
      (\<not> pattern_occurs s \<longrightarrow>
         validateRepository en db req =
           ((400, JObj [(''error'', JStr ''Invalid GitHub repository URL'')]), db, [])) \<and>
      (\<forall>owner repo. first_match s owner repo \<longrightarrow>
         fst (response_of (validateRepository en db req)) \<noteq> 400 \<and>
         db_lookups (effects_of (validateRepository en db req)) =
           [(ColFirebaseUid, js_or (uid u) (claim_id u))] \<and>
         (\<forall>row. select_single db ColFirebaseUid (js_or (uid u) (claim_id u)) = (Some row, None) \<and>
            truthy (github_access_token row) \<longrightarrow>
            map url (http_calls (effects_of (validateRepository en db req))) =
              [''https://api.github.com/repos/'' @ owner @ ''/'' @ repo]))) \<and>
   (\<forall>en db req u row.
      user req = Some u \<and>
      get_prop (body req) ''repositoryUrl'' = Inr (JStr ''https://github.com/acme/widgets'') \<and>
      select_single db ColFirebaseUid (js_or (uid u) (claim_id u)) = (Some row, None) \<and>
      truthy (github_access_token row) \<longrightarrow>
      map url (http_calls (effects_of (validateRepository en db req))) =
        [''https://api.github.com/repos/acme/widgets''])"
proof (intro conjI allI impI)
  show acme: "urlPattern_match ''https://github.com/acme/widgets'' = Some (''acme'', ''widgets'')"
    by code_simp
  {
    fix en db and req :: request and u row
    assume a: "user req = Some u \<and>
      get_prop (body req) ''repositoryUrl'' = Inr (JStr ''https://github.com/acme/widgets'') \<and>
      select_single db ColFirebaseUid (js_or (uid u) (claim_id u)) = (Some row, None) \<and>
      truthy (github_access_token row)"
    then show "map url (http_calls (effects_of (validateRepository en db req))) =
        [''https://api.github.com/repos/acme/widgets'']"
      using validateRepository_parsed(3) [OF _ _ acme, of req u db row en] by simp
  }
next
  fix s owner repo
  show "urlPattern_match s = Some (owner, repo) \<longleftrightarrow> first_match s owner repo"
    by (rule urlPattern_match_first_match)
next
  fix s
  show "pattern_occurs s \<longleftrightarrow> urlPattern_match s \<noteq> None"
    by (simp add: urlPattern_match_None_iff)
next
  fix en db and req :: request and u s
  assume a: "user req = Some u \<and> get_prop (body req) ''repositoryUrl'' = Inr (JStr s)"
  {
    assume "\<not> pattern_occurs s"
    then have "urlPattern_match s = None"
      by (simp add: urlPattern_match_None_iff)
    with a show "validateRepository en db req =
        ((400, JObj [(''error'', JStr ''Invalid GitHub repository URL'')]), db, [])"
      by (simp add: validateRepository_def error_body_def InvalidRepositoryUrl_def)
  }
  fix owner repo
  assume "first_match s owner repo"
  then have m: "urlPattern_match s = Some (owner, repo)"
    by (simp add: urlPattern_match_first_match)
  from a have u: "user req = Some u" and b: "get_prop (body req) ''repositoryUrl'' = Inr (JStr s)"
    by simp_all
  show "fst (response_of (validateRepository en db req)) \<noteq> 400"
    by (rule validateRepository_parsed(1) [OF u b m])
  show "db_lookups (effects_of (validateRepository en db req)) =
           [(ColFirebaseUid, js_or (uid u) (claim_id u))]"
    by (rule validateRepository_parsed(2) [OF u b m])
  fix row
  assume "select_single db ColFirebaseUid (js_or (uid u) (claim_id u)) = (Some row, None) \<and>
            truthy (github_access_token row)"
  then show "map url (http_calls (effects_of (validateRepository en db req))) =
              [''https://api.github.com/repos/'' @ owner @ ''/'' @ repo]"
    using validateRepository_parsed(3) [OF u b m] by simp
qed

theorem repository_url_parsing_witness:
  "validateRepository (github_answering (AxiosOk JNull) FetchThrows)
      [row_with ''1'' ''u'' (Some ''t'')]
      (request_by ''u'' (JObj [(''repositoryUrl'', JStr ''https://gitlab.com/acme/widgets'')])) =
     ((400, JObj [(''error'', JStr ''Invalid GitHub repository URL'')]),
      [row_with ''1'' ''u'' (Some ''t'')], []) \<and>
   fst (response_of (validateRepository (github_answering (AxiosOk JNull) (FetchResponse 404 None))
      [row_with ''1'' ''u'' (Some ''t'')]
      (request_by ''u'' (JObj [(''repositoryUrl'',
         JStr ''git clone https://github.com/acme/widgets/tree/main'')])))) \<noteq> 400 \<and>
   map url (http_calls (effects_of (validateRepository
      (github_answering (AxiosOk JNull) (FetchResponse 404 None))
      [row_with ''1'' ''u'' (Some ''t'')]
      (request_by ''u'' (JObj [(''repositoryUrl'',
         JStr ''git clone https://github.com/acme/widgets/tree/main'')]))))) =
     [''https://api.github.com/repos/acme/widgets'']"
proof -
  let ?db = "[row_with ''1'' ''u'' (Some ''t'')]"
  let ?u = "\<lparr>uid = Some ''u'', claim_firebase_uid = None, claim_id = None\<rparr>"
  let ?bad = "request_by ''u'' (JObj [(''repositoryUrl'', JStr ''https://gitlab.com/acme/widgets'')])"
  let ?good = "request_by ''u'' (JObj [(''repositoryUrl'',
         JStr ''git clone https://github.com/acme/widgets/tree/main'')])"
  note T = repository_url_parsing
  have n: "\<not> pattern_occurs ''https://gitlab.com/acme/widgets''"
    unfolding urlPattern_match_None_iff [symmetric] by code_simp
  have bb: "user ?bad = Some ?u \<and>
      get_prop (body ?bad) ''repositoryUrl'' = Inr (JStr ''https://gitlab.com/acme/widgets'')"
    by (simp add: get_prop_def)
  have bg: "user ?good = Some ?u \<and>
      get_prop (body ?good) ''repositoryUrl'' =
        Inr (JStr ''git clone https://github.com/acme/widgets/tree/main'')"
    by (simp add: get_prop_def)
  have "urlPattern_match ''git clone https://github.com/acme/widgets/tree/main'' =
      Some (''acme'', ''widgets'')"
    by code_simp
  with T have f: "first_match ''git clone https://github.com/acme/widgets/tree/main''
      ''acme'' ''widgets''"
    by blast
  have q: "select_single ?db ColFirebaseUid (js_or (uid ?u) (claim_id ?u)) =
      (Some (row_with ''1'' ''u'' (Some ''t'')), None) \<and>
      truthy (github_access_token (row_with ''1'' ''u'' (Some ''t'')))"
    by (simp add: select_single_def single_def eq_filter_def js_or_def)
  from T have A: "\<forall>en db req u s.
      user req = Some u \<and> get_prop (body req) ''repositoryUrl'' = Inr (JStr s) \<longrightarrow>
      (\<not> pattern_occurs s \<longrightarrow>
         validateRepository en db req =
           ((400, JObj [(''error'', JStr ''Invalid GitHub repository URL'')]), db, [])) \<and>
      (\<forall>owner repo. first_match s owner repo \<longrightarrow>
         fst (response_of (validateRepository en db req)) \<noteq> 400 \<and>
         db_lookups (effects_of (validateRepository en db req)) =
           [(ColFirebaseUid, js_or (uid u) (claim_id u))] \<and>
         (\<forall>row. select_single db ColFirebaseUid (js_or (uid u) (claim_id u)) = (Some row, None) \<and>
            truthy (github_access_token row) \<longrightarrow>
            map url (http_calls (effects_of (validateRepository en db req))) =
              [''https://api.github.com/repos/'' @ owner @ ''/'' @ repo]))"
    by blast
  from A [rule_format, OF bb] n
  have 1: "validateRepository (github_answering (AxiosOk JNull) FetchThrows) ?db ?bad =
      ((400, JObj [(''error'', JStr ''Invalid GitHub repository URL'')]), ?db, [])"
    by blast
  from A [rule_format, OF bg, THEN conjunct2, rule_format, OF f,
      of "github_answering (AxiosOk JNull) (FetchResponse 404 None)" ?db] q
  have 2: "fst (response_of (validateRepository
        (github_answering (AxiosOk JNull) (FetchResponse 404 None)) ?db ?good)) \<noteq> 400 \<and>
      map url (http_calls (effects_of (validateRepository
        (github_answering (AxiosOk JNull) (FetchResponse 404 None)) ?db ?good))) =
      [''https://api.github.com/repos/'' @ ''acme'' @ ''/'' @ ''widgets'']"
    by blast
  from 1 2 show ?thesis
    by simp
qed

section \<open>The validator's summary\<close>

text \<open>
  Claim C5.  When GitHub answers the get-repository call with a 2xx status and a body
  that is an object (any value other than \<^verbatim>\<open>null\<close>), the response of validateRepository
  is 200 with exactly \<^verbatim>\<open>valid: true\<close> and a \<^verbatim>\<open>repository\<close> object of the five
  properties \<^verbatim>\<open>id\<close>, \<^verbatim>\<open>name\<close>, \<^verbatim>\<open>full_name\<close>, \<^verbatim>\<open>default_branch\<close> and
  \<^verbatim>\<open>visibility\<close> read from the body; every other property of the body is dropped.
\<close>

theorem validated_repository_summary:
  assumes "user req = Some u"
    and "get_prop (body req) ''repositoryUrl'' = Inr (JStr s)"
    and "urlPattern_match s = Some (owner, repo)"
    and "select_single db ColFirebaseUid (js_or (uid u) (claim_id u)) = (Some row, None)"
    and "truthy (github_access_token row)"
    and "fetch en (repo_request owner repo (Some row)) = FetchResponse st (Some repoData)"
    and "ok st"
    and "\<not> nullish repoData"
  shows "response_of (validateRepository en db req) =
     (200, JObj
        [(''valid'', JBool True),
         (''repository'', JObj
            [(''id'', member_of repoData ''id''),
             (''name'', member_of repoData ''name''),
             (''full_name'', member_of repoData ''full_name''),
             (''default_branch'', member_of repoData ''default_branch''),
             (''visibility'', member_of repoData ''visibility'')])])"
  using assms
  by (simp add: validateRepository_def response_of_def repository_summary_def)

theorem validated_repository_summary_witness:
  "response_of (validateRepository
      (github_answering (AxiosOk JNull) (FetchResponse 200 (Some (JObj
         [(''id'', JNum 1), (''node_id'', JStr ''R_1''), (''name'', JStr ''widgets''),
          (''full_name'', JStr ''acme/widgets''), (''private'', JBool False),
          (''default_branch'', JStr ''main''), (''visibility'', JStr ''public''),
          (''forks'', JNum 3)]))))
      [row_with ''1'' ''u'' (Some ''t'')]
      (request_by ''u'' (JObj [(''repositoryUrl'', JStr ''https://github.com/acme/widgets'')]))) =
     (200, JObj
        [(''valid'', JBool True),
         (''repository'', JObj
            [(''id'', JNum 1),
             (''name'', JStr ''widgets''),
             (''full_name'', JStr ''acme/widgets''),
             (''default_branch'', JStr ''main''),
             (''visibility'', JStr ''public'')])])"
proof -
  have m: "urlPattern_match ''https://github.com/acme/widgets'' = Some (''acme'', ''widgets'')"
    by code_simp
  have b: "get_prop (body (request_by ''u''
      (JObj [(''repositoryUrl'', JStr ''https://github.com/acme/widgets'')]))) ''repositoryUrl'' =
      Inr (JStr ''https://github.com/acme/widgets'')"
    by (simp add: get_prop_def)
  have q: "select_single [row_with ''1'' ''u'' (Some ''t'')] ColFirebaseUid
      (js_or (uid \<lparr>uid = Some ''u'', claim_firebase_uid = None, claim_id = None\<rparr>)
         (claim_id \<lparr>uid = Some ''u'', claim_firebase_uid = None, claim_id = None\<rparr>)) =
      (Some (row_with ''1'' ''u'' (Some ''t'')), None)"
    by (simp add: select_single_def single_def eq_filter_def js_or_def)
  have k: "ok 200"
    by (simp add: ok_def)
  show ?thesis
    using validated_repository_summary [OF _ b m q _ _ k,
        where en = "github_answering (AxiosOk JNull) (FetchResponse 200 (Some (JObj
         [(''id'', JNum 1), (''node_id'', JStr ''R_1''), (''name'', JStr ''widgets''),
          (''full_name'', JStr ''acme/widgets''), (''private'', JBool False),
          (''default_branch'', JStr ''main''), (''visibility'', JStr ''public''),
          (''forks'', JNum 3)])))"]
    by simp
qed

section \<open>Credential lookup of the validator\<close>

text \<open>
  Claim C7.  validateRepository queries the users table by \<^verbatim>\<open>firebase_uid\<close> only, on
  every run; and when that query reports an error, returns no row, or returns a row
  whose token is null, the response is 401 and the query is the handler's only effect,
  so GitHub is not called.
\<close>

theorem validator_uses_external_key_only:
  "(\<forall>c k. (c, k) \<in> set (db_lookups (effects_of (validateRepository en db req))) \<longrightarrow>
        c = ColFirebaseUid) \<and>
   (\<forall>u s owner repo usr userError.
      user req = Some u \<and> get_prop (body req) ''repositoryUrl'' = Inr (JStr s) \<and>
      urlPattern_match s = Some (owner, repo) \<and>
      select_single db ColFirebaseUid (js_or (uid u) (claim_id u)) = (usr, userError) \<and>
      (userError \<noteq> None \<or> usr = None \<or> token_of usr = None) \<longrightarrow>
      response_of (validateRepository en db req) =
        (401, JObj [(''error'', JStr ''GitHub authentication required'')]) \<and>
      effects_of (validateRepository en db req) =
        [DbSelectSingle ColFirebaseUid (js_or (uid u) (claim_id u))] \<and>
      http_calls (effects_of (validateRepository en db req)) = [])"
proof (intro conjI allI impI)
  fix c k
  assume "(c, k) \<in> set (db_lookups (effects_of (validateRepository en db req)))"
  then show "c = ColFirebaseUid"
    by (auto simp: validateRepository_def effects_of_def Let_def db_lookups_append
        split: option.splits sum.splits prod.splits if_splits fetch_result.splits)
next
  fix u s owner repo and usr :: "user_row option" and userError
  assume a: "user req = Some u \<and> get_prop (body req) ''repositoryUrl'' = Inr (JStr s) \<and>
      urlPattern_match s = Some (owner, repo) \<and>
      select_single db ColFirebaseUid (js_or (uid u) (claim_id u)) = (usr, userError) \<and>
      (userError \<noteq> None \<or> usr = None \<or> token_of usr = None)"
  then have f: "userError \<noteq> None \<or> \<not> has_token usr"
    by (cases usr) auto
  have v: "validateRepository en db req =
      ((401, error_body GitHubAuthRequired), db,
       [DbSelectSingle ColFirebaseUid (js_or (uid u) (claim_id u))])"
    using a f by (auto simp: validateRepository_def)
  show "response_of (validateRepository en db req) =
        (401, JObj [(''error'', JStr ''GitHub authentication required'')])"
    by (simp add: v response_of_def error_body_def GitHubAuthRequired_def)
  show "effects_of (validateRepository en db req) =
        [DbSelectSingle ColFirebaseUid (js_or (uid u) (claim_id u))]"
    by (simp add: v effects_of_def)
  then show "http_calls (effects_of (validateRepository en db req)) = []"
    by simp
qed

theorem validator_uses_external_key_only_witness:
  "response_of (validateRepository (github_answering (AxiosOk JNull) FetchThrows)
      [row_with ''u'' ''x'' (Some ''t'')]
      (request_by ''u'' (JObj [(''repositoryUrl'', JStr ''https://github.com/acme/widgets'')]))) =
     (401, JObj [(''error'', JStr ''GitHub authentication required'')]) \<and>
   effects_of (validateRepository (github_answering (AxiosOk JNull) FetchThrows)
      [row_with ''u'' ''x'' (Some ''t'')]
      (request_by ''u'' (JObj [(''repositoryUrl'', JStr ''https://github.com/acme/widgets'')]))) =
     [DbSelectSingle ColFirebaseUid (Some ''u'')]"
proof -
  have m: "urlPattern_match ''https://github.com/acme/widgets'' = Some (''acme'', ''widgets'')"
    by code_simp
  have b: "get_prop (body (request_by ''u''
      (JObj [(''repositoryUrl'', JStr ''https://github.com/acme/widgets'')]))) ''repositoryUrl'' =
      Inr (JStr ''https://github.com/acme/widgets'')"
    by (simp add: get_prop_def)
  have q: "select_single [row_with ''u'' ''x'' (Some ''t'')] ColFirebaseUid
      (js_or (uid \<lparr>uid = Some ''u'', claim_firebase_uid = None, claim_id = None\<rparr>)
         (claim_id \<lparr>uid = Some ''u'', claim_firebase_uid = None, claim_id = None\<rparr>)) =
      (None, Some NotExactlyOneRow)"
    by (simp add: select_single_def single_def eq_filter_def js_or_def)
  have k: "js_or (uid \<lparr>uid = Some ''u'', claim_firebase_uid = None, claim_id = None\<rparr>)
         (claim_id \<lparr>uid = Some ''u'', claim_firebase_uid = None, claim_id = None\<rparr>) = Some ''u''"
    by (simp add: js_or_def)
  from validator_uses_external_key_only [where db = "[row_with ''u'' ''x'' (Some ''t'')]"
      and en = "github_answering (AxiosOk JNull) FetchThrows"
      and req = "request_by ''u'' (JObj [(''repositoryUrl'', JStr ''https://github.com/acme/widgets'')])"]
  have "\<forall>u s owner repo usr userError.
      user (request_by ''u'' (JObj [(''repositoryUrl'', JStr ''https://github.com/acme/widgets'')])) = Some u \<and>
      get_prop (body (request_by ''u'' (JObj [(''repositoryUrl'', JStr ''https://github.com/acme/widgets'')]))) ''repositoryUrl'' = Inr (JStr s) \<and>
      urlPattern_match s = Some (owner, repo) \<and>
      select_single [row_with ''u'' ''x'' (Some ''t'')] ColFirebaseUid (js_or (uid u) (claim_id u)) = (usr, userError) \<and>
      (userError \<noteq> None \<or> usr = None \<or> token_of usr = None) \<longrightarrow>
      response_of (validateRepository (github_answering (AxiosOk JNull) FetchThrows)
        [row_with ''u'' ''x'' (Some ''t'')]
        (request_by ''u'' (JObj [(''repositoryUrl'', JStr ''https://github.com/acme/widgets'')]))) =
        (401, JObj [(''error'', JStr ''GitHub authentication required'')]) \<and>
      effects_of (validateRepository (github_answering (AxiosOk JNull) FetchThrows)
        [row_with ''u'' ''x'' (Some ''t'')]
        (request_by ''u'' (JObj [(''repositoryUrl'', JStr ''https://github.com/acme/widgets'')]))) =
        [DbSelectSingle ColFirebaseUid (js_or (uid u) (claim_id u))] \<and>
      http_calls (effects_of (validateRepository (github_answering (AxiosOk JNull) FetchThrows)
        [row_with ''u'' ''x'' (Some ''t'')]
        (request_by ''u'' (JObj [(''repositoryUrl'', JStr ''https://github.com/acme/widgets'')])))) = []"
    by (rule conjunct2)
  from this [rule_format, of "\<lparr>uid = Some ''u'', claim_firebase_uid = None, claim_id = None\<rparr>"
      "''https://github.com/acme/widgets''" "''acme''" "''widgets''" None "Some NotExactlyOneRow"]
    b m q k
  show ?thesis by simp
qed

section \<open>A repository that cannot be read\<close>

text \<open>
  Claim C8.  Whatever status outside 200 to 299 GitHub answers the get-repository call
  with, validateRepository responds 403 with the error
  \<^verbatim>\<open>Repository not found or no access\<close>.
\<close>

theorem inaccessible_repository_is_403:
  assumes "user req = Some u"
    and "get_prop (body req) ''repositoryUrl'' = Inr (JStr s)"
    and "urlPattern_match s = Some (owner, repo)"
    and "select_single db ColFirebaseUid (js_or (uid u) (claim_id u)) = (Some row, None)"
    and "truthy (github_access_token row)"
    and "fetch en (repo_request owner repo (Some row)) = FetchResponse st parsed"
    and "\<not> ok st"
  shows "response_of (validateRepository en db req) =
           (403, JObj [(''error'', JStr ''Repository not found or no access'')])"
  using assms
  by (simp add: validateRepository_def response_of_def error_body_def RepositoryNotAccessible_def)

theorem inaccessible_repository_is_403_witness:
  "response_of (validateRepository
      (github_answering (AxiosOk JNull)
         (FetchResponse 404 (Some (JObj [(''message'', JStr ''Not Found'')]))))
      [row_with ''1'' ''u'' (Some ''t'')]
      (request_by ''u'' (JObj [(''repositoryUrl'', JStr ''https://github.com/acme/widgets'')]))) =
     (403, JObj [(''error'', JStr ''Repository not found or no access'')]) \<and>
   response_of (validateRepository
      (github_answering (AxiosOk JNull) (FetchResponse 500 None))
      [row_with ''1'' ''u'' (Some ''t'')]
      (request_by ''u'' (JObj [(''repositoryUrl'', JStr ''https://github.com/acme/widgets'')]))) =
     (403, JObj [(''error'', JStr ''Repository not found or no access'')])"
proof -
  have m: "urlPattern_match ''https://github.com/acme/widgets'' = Some (''acme'', ''widgets'')"
    by code_simp
  have b: "get_prop (body (request_by ''u''
      (JObj [(''repositoryUrl'', JStr ''https://github.com/acme/widgets'')]))) ''repositoryUrl'' =
      Inr (JStr ''https://github.com/acme/widgets'')"
    by (simp add: get_prop_def)
  have q: "select_single [row_with ''1'' ''u'' (Some ''t'')] ColFirebaseUid
      (js_or (uid \<lparr>uid = Some ''u'', claim_firebase_uid = None, claim_id = None\<rparr>)
         (claim_id \<lparr>uid = Some ''u'', claim_firebase_uid = None, claim_id = None\<rparr>)) =
      (Some (row_with ''1'' ''u'' (Some ''t'')), None)"
    by (simp add: select_single_def single_def eq_filter_def js_or_def)
  have k: "\<not> ok 404" "\<not> ok 500"
    by (simp_all add: ok_def)
  show ?thesis
    using inaccessible_repository_is_403 [OF _ b m q _ _ k(1),
        where en = "github_answering (AxiosOk JNull)
         (FetchResponse 404 (Some (JObj [(''message'', JStr ''Not Found'')])))"]
      inaccessible_repository_is_403 [OF _ b m q _ _ k(2),
        where en = "github_answering (AxiosOk JNull) (FetchResponse 500 None)"]
    by simp
qed

section \<open>A repository URL that is not a string\<close>

lemma string_match_not_string:
  "(\<forall>s. v \<noteq> JStr s) \<Longrightarrow> string_match v = Inl TypeError"
  by (cases v) simp_all

text \<open>
  Claim C10.  When \<^verbatim>\<open>repositoryUrl\<close> is missing from the body or is not a string,
  calling \<^verbatim>\<open>match\<close> on it throws, and validateRepository responds 500 with the error
  \<^verbatim>\<open>Failed to validate repository\<close>, not 400; it has queried nothing.
\<close>

theorem non_string_url_is_500:
  assumes "\<forall>s. get_prop (body req) ''repositoryUrl'' \<noteq> Inr (JStr s)"
  shows "validateRepository en db req =
           ((500, JObj [(''error'', JStr ''Failed to validate repository'')]), db, [])"
proof (cases "user req")
  case None
  then show ?thesis
    by (simp add: validateRepository_def validate_failed_def error_body_def)
next
  case (Some u)
  show ?thesis
  proof (cases "get_prop (body req) ''repositoryUrl''")
    case (Inl e)
    with Some show ?thesis
      by (simp add: validateRepository_def validate_failed_def error_body_def)
  next
    case (Inr v)
    with assms have "\<forall>s. v \<noteq> JStr s"
      by simp
    then have "string_match v = Inl TypeError"
      by (rule string_match_not_string)
    with Some Inr show ?thesis
      by (simp add: validateRepository_def validate_failed_def error_body_def)
  qed
qed

theorem non_string_url_is_500_witness:
  "validateRepository (github_answering (AxiosOk JNull) FetchThrows)
      [row_with ''1'' ''u'' (Some ''t'')] (request_by ''u'' (JObj [])) =
     ((500, JObj [(''error'', JStr ''Failed to validate repository'')]),
      [row_with ''1'' ''u'' (Some ''t'')], []) \<and>
   validateRepository (github_answering (AxiosOk JNull) FetchThrows)
      [row_with ''1'' ''u'' (Some ''t'')]
      (request_by ''u'' (JObj [(''repositoryUrl'', JNum 7)])) =
     ((500, JObj [(''error'', JStr ''Failed to validate repository'')]),
      [row_with ''1'' ''u'' (Some ''t'')], [])"
proof -
  have a: "\<forall>s. get_prop (body (request_by ''u'' (JObj []))) ''repositoryUrl'' \<noteq> Inr (JStr s)"
    by (simp add: get_prop_def)
  have b: "\<forall>s. get_prop (body (request_by ''u'' (JObj [(''repositoryUrl'', JNum 7)])))
      ''repositoryUrl'' \<noteq> Inr (JStr s)"
    by (simp add: get_prop_def)
  show ?thesis
    using non_string_url_is_500 [OF a] non_string_url_is_500 [OF b] by blast
qed

section \<open>The list of repository summaries\<close>

lemma map_throw_formatRepo:
  "\<forall>r\<in>set repos. \<not> nullish r \<Longrightarrow>
   map_throw formatRepo repos =
     Inr (map (\<lambda>r. JObj
        [(''id'', member_of r ''id''),
         (''name'', member_of r ''name''),
         (''full_name'', member_of r ''full_name''),
         (''html_url'', member_of r ''html_url''),
         (''description'', member_of r ''description''),
         (''default_branch'', member_of r ''default_branch''),
         (''visibility'', member_of r ''visibility''),
         (''updated_at'', member_of r ''updated_at'')]) repos)"
  by (induction repos) (simp_all add: formatRepo_def)

text \<open>
  Claim C6, as the claim states it, calls the summary a seven-field projection.  The
  object getRepositories builds for a repository has eight properties, the eight the
  claim lists: for a GitHub answer of one repository object the one summary has the
  keys below, eight of them.
\<close>

theorem summary_has_eight_fields:
  "map object_keys (elements (member_of (snd (response_of (getRepositories
      (github_answering (AxiosOk (JArr [JObj
         [(''id'', JNum 1), (''name'', JStr ''widgets''), (''full_name'', JStr ''acme/widgets''),
          (''html_url'', JStr ''https://github.com/acme/widgets''), (''description'', JNull),
          (''default_branch'', JStr ''main''), (''visibility'', JStr ''public''),
          (''updated_at'', JStr ''2024-01-01T00:00:00Z''), (''fork'', JBool False)]]))
         FetchThrows)
      [row_with ''1'' ''u'' (Some ''t'')] (request_by ''u'' JUndefined)))) ''repositories'')) =
     [[''id'', ''name'', ''full_name'', ''html_url'', ''description'', ''default_branch'',
       ''visibility'', ''updated_at'']] \<and>
   map (length \<circ> object_keys) (elements (member_of (snd (response_of (getRepositories
      (github_answering (AxiosOk (JArr [JObj
         [(''id'', JNum 1), (''name'', JStr ''widgets''), (''full_name'', JStr ''acme/widgets''),
          (''html_url'', JStr ''https://github.com/acme/widgets''), (''description'', JNull),
          (''default_branch'', JStr ''main''), (''visibility'', JStr ''public''),
          (''updated_at'', JStr ''2024-01-01T00:00:00Z''), (''fork'', JBool False)]]))
         FetchThrows)
      [row_with ''1'' ''u'' (Some ''t'')] (request_by ''u'' JUndefined)))) ''repositories'')) =
     [8]"
  by (simp add: getRepositories_def response_of_def find_user_def select_single_def single_def
      eq_filter_def js_or_def Let_def formatRepo_def)

text \<open>
  Claim C6, amended.  For every array of N repository objects GitHub returns,
  getRepositories responds 200 with an array of exactly N summaries in the order of the
  input, the summary at each position being the eight-field projection
  \<^verbatim>\<open>id\<close>, \<^verbatim>\<open>name\<close>, \<^verbatim>\<open>full_name\<close>, \<^verbatim>\<open>html_url\<close>, \<^verbatim>\<open>description\<close>,
  \<^verbatim>\<open>default_branch\<close>, \<^verbatim>\<open>visibility\<close>, \<^verbatim>\<open>updated_at\<close> of the repository at that
  position; a property the repository lacks is passed on as \<^verbatim>\<open>undefined\<close>, and nothing
  is validated.
\<close>

theorem repositories_mapped_in_order:
  assumes u: "user req = Some u"
    and f: "fst (find_user db (js_or (js_or (uid u) (claim_firebase_uid u)) (claim_id u))) = Some usr"
    and a: "axios en (repos_request usr) = AxiosOk (JArr repos)"
    and r: "\<forall>r\<in>set repos. \<not> nullish r"
  shows "response_of (getRepositories en db req) =
           (200, JObj [(''repositories'', JArr (map (\<lambda>r. JObj
              [(''id'', member_of r ''id''),
               (''name'', member_of r ''name''),
               (''full_name'', member_of r ''full_name''),
               (''html_url'', member_of r ''html_url''),
               (''description'', member_of r ''description''),
               (''default_branch'', member_of r ''default_branch''),
               (''visibility'', member_of r ''visibility''),
               (''updated_at'', member_of r ''updated_at'')]) repos))]) \<and>
         length (elements (member_of (snd (response_of (getRepositories en db req)))
           ''repositories'')) = length repos \<and>
         (\<forall>i<length repos.
            elements (member_of (snd (response_of (getRepositories en db req)))
              ''repositories'') ! i =
            JObj
              [(''id'', member_of (repos ! i) ''id''),
               (''name'', member_of (repos ! i) ''name''),
               (''full_name'', member_of (repos ! i) ''full_name''),
               (''html_url'', member_of (repos ! i) ''html_url''),
               (''description'', member_of (repos ! i) ''description''),
               (''default_branch'', member_of (repos ! i) ''default_branch''),
               (''visibility'', member_of (repos ! i) ''visibility''),
               (''updated_at'', member_of (repos ! i) ''updated_at'')])"
proof -
  obtain tr where "find_user db (js_or (js_or (uid u) (claim_firebase_uid u)) (claim_id u)) =
      (Some usr, tr)"
    using f by (cases "find_user db (js_or (js_or (uid u) (claim_firebase_uid u)) (claim_id u))") simp
  then have "response_of (getRepositories en db req) =
           (200, JObj [(''repositories'', JArr (map (\<lambda>r. JObj
              [(''id'', member_of r ''id''),
               (''name'', member_of r ''name''),
               (''full_name'', member_of r ''full_name''),
               (''html_url'', member_of r ''html_url''),
               (''description'', member_of r ''description''),
               (''default_branch'', member_of r ''default_branch''),
               (''visibility'', member_of r ''visibility''),
               (''updated_at'', member_of r ''updated_at'')]) repos))])"
    using u a by (simp add: getRepositories_def response_of_def map_throw_formatRepo [OF r])
  then show ?thesis
    by simp
qed

theorem repositories_mapped_in_order_witness:
  "response_of (getRepositories
      (github_answering (AxiosOk (JArr
         [JObj [(''id'', JNum 2), (''name'', JStr ''b''), (''fork'', JBool True)],
          JObj [(''name'', JStr ''a''), (''id'', JNum 1), (''visibility'', JStr ''private'')]]))
         FetchThrows)
      [row_with ''1'' ''u'' (Some ''t'')] (request_by ''u'' JUndefined)) =
     (200, JObj [(''repositories'', JArr
        [JObj [(''id'', JNum 2), (''name'', JStr ''b''), (''full_name'', JUndefined),
               (''html_url'', JUndefined), (''description'', JUndefined),
               (''default_branch'', JUndefined), (''visibility'', JUndefined),
               (''updated_at'', JUndefined)],
         JObj [(''id'', JNum 1), (''name'', JStr ''a''), (''full_name'', JUndefined),
               (''html_url'', JUndefined), (''description'', JUndefined),
               (''default_branch'', JUndefined), (''visibility'', JStr ''private''),
               (''updated_at'', JUndefined)]])])"
proof -
  have f: "fst (find_user [row_with ''1'' ''u'' (Some ''t'')]
      (js_or (js_or (uid \<lparr>uid = Some ''u'', claim_firebase_uid = None, claim_id = None\<rparr>)
         (claim_firebase_uid \<lparr>uid = Some ''u'', claim_firebase_uid = None, claim_id = None\<rparr>))
         (claim_id \<lparr>uid = Some ''u'', claim_firebase_uid = None, claim_id = None\<rparr>))) =
      Some (row_with ''1'' ''u'' (Some ''t''))"
    by (simp add: find_user_def select_single_def single_def eq_filter_def js_or_def)
  have r: "\<forall>r\<in>set
         [JObj [(''id'', JNum 2), (''name'', JStr ''b''), (''fork'', JBool True)],
          JObj [(''name'', JStr ''a''), (''id'', JNum 1), (''visibility'', JStr ''private'')]].
       \<not> nullish r"
    by simp
  show ?thesis
    using repositories_mapped_in_order [OF _ f _ r,
        where en = "github_answering (AxiosOk (JArr
         [JObj [(''id'', JNum 2), (''name'', JStr ''b''), (''fork'', JBool True)],
          JObj [(''name'', JStr ''a''), (''id'', JNum 1), (''visibility'', JStr ''private'')]]))
         FetchThrows" and req = "request_by ''u'' JUndefined"]
    by simp
qed

section \<open>What the handlers write\<close>

lemma clear_token_rows:
  "list_all2 (\<lambda>r r'. r' = r \<or> r' = r\<lparr>github_access_token := None\<rparr>) db (clear_token db c k)"
  by (induction db) (simp_all add: clear_token_def)

lemma unchanged_rows:
  "list_all2 (\<lambda>r r'. r' = r \<or> r' = r\<lparr>github_access_token := None\<rparr>) db db"
  by (induction db) simp_all

lemma getRepositoryBranches_frame:
  "table_of (getRepositoryBranches en db req) = db \<and>
   db_writes (effects_of (getRepositoryBranches en db req)) = []"
proof (cases "user req")
  case None
  then show ?thesis
    by (simp add: getRepositoryBranches_def table_of_def effects_of_def)
next
  case (Some u)
  obtain found tr where f: "find_user db (js_or (js_or (uid u) (claim_firebase_uid u)) (claim_id u)) =
      (found, tr)"
    by (cases "find_user db (js_or (js_or (uid u) (claim_firebase_uid u)) (claim_id u))")
  have w: "db_writes tr = []"
    using find_user_effects [of db "js_or (js_or (uid u) (claim_firebase_uid u)) (claim_id u)"] f
    by simp
  show ?thesis
    using Some f w
    by (simp add: getRepositoryBranches_def table_of_def effects_of_def Let_def db_writes_append
        split: option.splits fetch_result.splits)
qed

lemma validateRepository_frame:
  "table_of (validateRepository en db req) = db \<and>
   db_writes (effects_of (validateRepository en db req)) = []"
  by (simp add: validateRepository_def table_of_def effects_of_def Let_def db_writes_append
      split: option.splits sum.splits prod.splits fetch_result.splits)

text \<open>getRepositories either leaves the table alone and writes nothing, or it is on the
  path of the upstream 401.\<close>

lemma getRepositories_frame:
  "(table_of (getRepositories en db req) = db \<and>
    db_writes (effects_of (getRepositories en db req)) = []) \<or>
   (\<exists>u usr msg. user req = Some u \<and>
      fst (find_user db (js_or (js_or (uid u) (claim_firebase_uid u)) (claim_id u))) = Some usr \<and>
      axios en (repos_request usr) = AxiosErr (Some 401) msg \<and>
      fst (response_of (getRepositories en db req)) = 401 \<and>
      table_of (getRepositories en db req) =
        clear_token db ColFirebaseUid (js_or (js_or (uid u) (claim_firebase_uid u)) (claim_id u)) \<and>
      db_writes (effects_of (getRepositories en db req)) =
        [(ColFirebaseUid, js_or (js_or (uid u) (claim_firebase_uid u)) (claim_id u))])"
proof (cases "user req")
  case None
  then show ?thesis
    by (simp add: getRepositories_def table_of_def effects_of_def)
next
  case (Some u)
  obtain found tr where f: "find_user db (js_or (js_or (uid u) (claim_firebase_uid u)) (claim_id u)) =
      (found, tr)"
    by (cases "find_user db (js_or (js_or (uid u) (claim_firebase_uid u)) (claim_id u))")
  have w: "db_writes tr = []"
    using find_user_effects [of db "js_or (js_or (uid u) (claim_firebase_uid u)) (claim_id u)"] f
    by simp
  show ?thesis
  proof (cases found)
    case None
    with Some f w show ?thesis
      by (simp add: getRepositories_def table_of_def effects_of_def db_writes_append)
  next
    case usr: (Some usr)
    show ?thesis
    proof (cases "axios en (repos_request usr)")
      case (AxiosOk repositories)
      with Some f w usr show ?thesis
        by (simp add: getRepositories_def table_of_def effects_of_def Let_def db_writes_append
            split: jsval.splits sum.splits)
    next
      case (AxiosErr st msg)
      with Some f w usr show ?thesis
        by (simp add: getRepositories_def table_of_def effects_of_def response_of_def Let_def
            db_writes_append)
    qed
  qed
qed

text \<open>
  Claim C9.  getRepositoryBranches and validateRepository leave the users table as it
  was and issue no update, on every path and whatever GitHub answers.  getRepositories
  changes no row except by setting its token to null, and it changes the table or
  issues an update only when GitHub answered the list call with 401.  All three handlers
  read the table: a lister queries it by \<^verbatim>\<open>firebase_uid\<close> for every request with a
  caller, the validator once the URL has parsed.
\<close>

theorem token_written_only_on_list_401:
  "table_of (getRepositoryBranches en db req) = db \<and>
   db_writes (effects_of (getRepositoryBranches en db req)) = [] \<and>
   table_of (validateRepository en db req) = db \<and>
   db_writes (effects_of (validateRepository en db req)) = [] \<and>
   list_all2 (\<lambda>r r'. r' = r \<or> r' = r\<lparr>github_access_token := None\<rparr>)
     db (table_of (getRepositories en db req)) \<and>
   (table_of (getRepositories en db req) \<noteq> db \<or>
    db_writes (effects_of (getRepositories en db req)) \<noteq> [] \<longrightarrow>
      (\<exists>u usr msg. user req = Some u \<and>
         fst (find_user db (js_or (js_or (uid u) (claim_firebase_uid u)) (claim_id u))) = Some usr \<and>
         axios en (repos_request usr) = AxiosErr (Some 401) msg \<and>
         fst (response_of (getRepositories en db req)) = 401)) \<and>
   (\<forall>u. user req = Some u \<longrightarrow>
      (ColFirebaseUid, js_or (js_or (uid u) (claim_firebase_uid u)) (claim_id u)) \<in>
        set (db_lookups (effects_of (getRepositories en db req))) \<and>
      (ColFirebaseUid, js_or (js_or (uid u) (claim_firebase_uid u)) (claim_id u)) \<in>
        set (db_lookups (effects_of (getRepositoryBranches en db req)))) \<and>
   (\<forall>u s m. user req = Some u \<and> get_prop (body req) ''repositoryUrl'' = Inr (JStr s) \<and>
      urlPattern_match s = Some m \<longrightarrow>
      (ColFirebaseUid, js_or (uid u) (claim_id u)) \<in>
        set (db_lookups (effects_of (validateRepository en db req))))"
proof (intro conjI allI impI)
  show "table_of (getRepositoryBranches en db req) = db"
    and "db_writes (effects_of (getRepositoryBranches en db req)) = []"
    using getRepositoryBranches_frame by simp_all
  show "table_of (validateRepository en db req) = db"
    and "db_writes (effects_of (validateRepository en db req)) = []"
    using validateRepository_frame by simp_all
  show "list_all2 (\<lambda>r r'. r' = r \<or> r' = r\<lparr>github_access_token := None\<rparr>)
     db (table_of (getRepositories en db req))"
    using getRepositories_frame [of en db req] clear_token_rows unchanged_rows
    by (elim disjE exE conjE) simp_all
next
  assume "table_of (getRepositories en db req) \<noteq> db \<or>
    db_writes (effects_of (getRepositories en db req)) \<noteq> []"
  with getRepositories_frame [of en db req]
  show "\<exists>u usr msg. user req = Some u \<and>
         fst (find_user db (js_or (js_or (uid u) (claim_firebase_uid u)) (claim_id u))) = Some usr \<and>
         axios en (repos_request usr) = AxiosErr (Some 401) msg \<and>
         fst (response_of (getRepositories en db req)) = 401"
    by blast
next
  fix u
  assume u: "user req = Some u"
  obtain found tr where f: "find_user db (js_or (js_or (uid u) (claim_firebase_uid u)) (claim_id u)) =
      (found, tr)"
    by (cases "find_user db (js_or (js_or (uid u) (claim_firebase_uid u)) (claim_id u))")
  have t: "(ColFirebaseUid, js_or (js_or (uid u) (claim_firebase_uid u)) (claim_id u)) \<in>
      set (db_lookups tr)"
    using f by (auto simp: find_user_def Let_def case_prod_beta split: if_splits)
  show "(ColFirebaseUid, js_or (js_or (uid u) (claim_firebase_uid u)) (claim_id u)) \<in>
        set (db_lookups (effects_of (getRepositories en db req)))"
  proof (cases found)
    case None
    with u f t show ?thesis
      by (simp add: getRepositories_not_found effects_of_def db_lookups_append)
  next
    case (Some usr)
    with u f t show ?thesis
      by (simp add: getRepositories_found)
  qed
  show "(ColFirebaseUid, js_or (js_or (uid u) (claim_firebase_uid u)) (claim_id u)) \<in>
        set (db_lookups (effects_of (getRepositoryBranches en db req)))"
  proof (cases found)
    case None
    with u f t show ?thesis
      by (simp add: getRepositoryBranches_not_found effects_of_def db_lookups_append)
  next
    case (Some usr)
    with u f t show ?thesis
      by (simp add: getRepositoryBranches_found)
  qed
next
  fix u s m
  assume "user req = Some u \<and> get_prop (body req) ''repositoryUrl'' = Inr (JStr s) \<and>
      urlPattern_match s = Some m"
  then show "(ColFirebaseUid, js_or (uid u) (claim_id u)) \<in>
        set (db_lookups (effects_of (validateRepository en db req)))"
    by (cases m)
      (simp add: validateRepository_def effects_of_def Let_def db_lookups_append
        split: prod.splits fetch_result.splits option.splits sum.splits)
qed

theorem token_written_only_on_list_401_witness:
  "table_of (getRepositoryBranches
      (github_answering (AxiosErr (Some 401) ''Request failed with status code 401'')
         (FetchResponse 401 (Some (JObj [(''message'', JStr ''Bad credentials'')]))))
      [row_with ''1'' ''u'' (Some ''t'')]
      (request_by ''u'' (JObj [(''repositoryUrl'', JStr ''https://github.com/acme/widgets'')]))) =
     [row_with ''1'' ''u'' (Some ''t'')] \<and>
   table_of (validateRepository
      (github_answering (AxiosErr (Some 401) ''Request failed with status code 401'')
         (FetchResponse 401 (Some (JObj [(''message'', JStr ''Bad credentials'')]))))
      [row_with ''1'' ''u'' (Some ''t'')]
      (request_by ''u'' (JObj [(''repositoryUrl'', JStr ''https://github.com/acme/widgets'')]))) =
     [row_with ''1'' ''u'' (Some ''t'')] \<and>
   table_of (getRepositories
      (github_answering (AxiosErr (Some 401) ''Request failed with status code 401'')
         (FetchResponse 401 (Some (JObj [(''message'', JStr ''Bad credentials'')]))))
      [row_with ''1'' ''u'' (Some ''t'')]
      (request_by ''u'' (JObj [(''repositoryUrl'', JStr ''https://github.com/acme/widgets'')]))) =
     [row_with ''1'' ''u'' None] \<and>
   fst (response_of (getRepositories
      (github_answering (AxiosErr (Some 401) ''Request failed with status code 401'')
         (FetchResponse 401 (Some (JObj [(''message'', JStr ''Bad credentials'')]))))
      [row_with ''1'' ''u'' (Some ''t'')]
      (request_by ''u'' (JObj [(''repositoryUrl'', JStr ''https://github.com/acme/widgets'')])))) =
     401 \<and>
   (ColFirebaseUid, Some ''u'') \<in> set (db_lookups (effects_of (validateRepository
      (github_answering (AxiosErr (Some 401) ''Request failed with status code 401'')
         (FetchResponse 401 (Some (JObj [(''message'', JStr ''Bad credentials'')]))))
      [row_with ''1'' ''u'' (Some ''t'')]
      (request_by ''u'' (JObj [(''repositoryUrl'', JStr ''https://github.com/acme/widgets'')])))))"
proof -
  let ?en = "github_answering (AxiosErr (Some 401) ''Request failed with status code 401'')
         (FetchResponse 401 (Some (JObj [(''message'', JStr ''Bad credentials'')])))"
  let ?db = "[row_with ''1'' ''u'' (Some ''t'')]"
  let ?req = "request_by ''u'' (JObj [(''repositoryUrl'', JStr ''https://github.com/acme/widgets'')])"
  let ?u = "\<lparr>uid = Some ''u'', claim_firebase_uid = None, claim_id = None\<rparr>"
  note T = token_written_only_on_list_401 [of ?en ?db ?req]
  have t: "table_of (getRepositories ?en ?db ?req) = [row_with ''1'' ''u'' None]"
    by (simp add: getRepositories_def table_of_def find_user_def select_single_def single_def
        eq_filter_def js_or_def Let_def clear_token_def)
  then have changed: "table_of (getRepositories ?en ?db ?req) \<noteq> ?db \<or>
      db_writes (effects_of (getRepositories ?en ?db ?req)) \<noteq> []"
    by simp
  have m: "urlPattern_match ''https://github.com/acme/widgets'' = Some (''acme'', ''widgets'')"
    by code_simp
  have b: "user ?req = Some ?u \<and>
      get_prop (body ?req) ''repositoryUrl'' = Inr (JStr ''https://github.com/acme/widgets'') \<and>
      urlPattern_match ''https://github.com/acme/widgets'' = Some (''acme'', ''widgets'')"
    using m by (simp add: get_prop_def)
  have k: "js_or (uid ?u) (claim_id ?u) = Some ''u''"
    by (simp add: js_or_def)
  from T have 1: "table_of (getRepositoryBranches ?en ?db ?req) = ?db"
    and 2: "table_of (validateRepository ?en ?db ?req) = ?db"
    by blast+
  from T changed have "\<exists>u usr msg. user ?req = Some u \<and>
      fst (find_user ?db (js_or (js_or (uid u) (claim_firebase_uid u)) (claim_id u))) = Some usr \<and>
      axios ?en (repos_request usr) = AxiosErr (Some 401) msg \<and>
      fst (response_of (getRepositories ?en ?db ?req)) = 401"
    by blast
  then have 3: "fst (response_of (getRepositories ?en ?db ?req)) = 401"
    by blast
  from T have "\<forall>u s m. user ?req = Some u \<and> get_prop (body ?req) ''repositoryUrl'' = Inr (JStr s) \<and>
      urlPattern_match s = Some m \<longrightarrow>
      (ColFirebaseUid, js_or (uid u) (claim_id u)) \<in>
        set (db_lookups (effects_of (validateRepository ?en ?db ?req)))"
    by blast
  with b have "(ColFirebaseUid, js_or (uid ?u) (claim_id ?u)) \<in>
        set (db_lookups (effects_of (validateRepository ?en ?db ?req)))"
    by blast
  with k have 4: "(ColFirebaseUid, Some ''u'') \<in>
        set (db_lookups (effects_of (validateRepository ?en ?db ?req)))"
    by simp
  from 1 2 t 3 4 show ?thesis
    by blast
qed

end
